theory Spec2Isabelle
  imports Main "HOL-Library.AList"
begin

section \<open>Dynamic values, errors and formatting\<close>

text \<open>
  The Go code passes results around as \<^verbatim>\<open>interface{}\<close> values and recovers their shape
  with type assertions. The type \<open>val\<close> is the tagged union of the dynamic types that
  occur in package dbtools. A \<^verbatim>\<open>map[string]interface{}\<close> is an association list read
  with \<open>map_of\<close> and written with \<open>AList.update\<close> (Go map keys are unique and the code
  never depends on iteration order). A nil slice and an empty slice are both \<open>[]\<close>, a
  nil map and an empty map likewise: the code only ranges over them and reads them.
\<close>

datatype val =
    VNil
  | VStr string
  | VInt int
  | VBool bool
  | VStrs "string list"
  | VList "val list"
  | VRows "(string \<times> val) list list"
  | VMap "(string \<times> val) list"
  | VEnums "(string \<times> string list) list"

type_synonym row = "(string \<times> val) list"

text \<open>
  An error value as \<^verbatim>\<open>fmt.Errorf\<close> builds it: the text rendered before the \<^verbatim>\<open>%w\<close> verb
  (the whole text when there is none) and the wrapped error, if any.
\<close>

datatype error = Errorf string "error option"

fun Error_text :: "error \<Rightarrow> string" where
  "Error_text (Errorf s None) = s"
| "Error_text (Errorf s (Some e)) = s @ Error_text e"

fun Unwrap :: "error \<Rightarrow> error option" where
  "Unwrap (Errorf s w) = w"

text \<open>The \<^verbatim>\<open>%d\<close> verb on a non-negative int.\<close>

definition digit_char :: "nat \<Rightarrow> char" where
  "digit_char d = char_of (48 + d)"

function itoa :: "nat \<Rightarrow> string" where
  "itoa n = (if n < 10 then [digit_char n] else itoa (n div 10) @ [digit_char (n mod 10)])"
  by pat_completeness auto
termination
  by (relation "measure id") auto

declare itoa.simps [simp del]

subsection \<open>Package strings, on bytes\<close>

fun HasPrefix :: "string \<Rightarrow> string \<Rightarrow> bool" where
  "HasPrefix s [] = True"
| "HasPrefix [] (p # ps) = False"
| "HasPrefix (c # s) (p # ps) = (c = p \<and> HasPrefix s ps)"

fun Contains :: "string \<Rightarrow> string \<Rightarrow> bool" where
  "Contains [] sub = (sub = [])"
| "Contains (c # s) sub = (HasPrefix (c # s) sub \<or> Contains s sub)"

text \<open>
  \<^verbatim>\<open>strings.ToUpper\<close> and \<^verbatim>\<open>strings.TrimSpace\<close> work on Unicode text (they map and trim
  runes outside ASCII too). They are not defined here: the functions that call them
  take them as the arguments \<open>ToUpper\<close> and \<open>TrimSpace\<close>, and what is proved holds for
  whatever the two compute.
\<close>

subsection \<open>Type assertions on map entries\<close>

text \<open>
  \<^verbatim>\<open>v, ok := m[key].(string)\<close>: a missing key reads as the nil interface, on which the
  assertion fails like on any value of another dynamic type.
\<close>

fun assertString :: "val option \<Rightarrow> string option" where
  "assertString (Some (VStr s)) = Some s"
| "assertString _ = None"

fun assertRows :: "val option \<Rightarrow> row list option" where
  "assertRows (Some (VRows rs)) = Some rs"
| "assertRows _ = None"

fun assertMap :: "val option \<Rightarrow> row option" where
  "assertMap (Some (VMap m)) = Some m"
| "assertMap _ = None"

text \<open>\<^verbatim>\<open>m[key]\<close> used as a value: the nil interface when the key is missing.\<close>

definition index_val :: "row \<Rightarrow> string \<Rightarrow> val" where
  "index_val m key = (case map_of m key of None \<Rightarrow> VNil | Some v \<Rightarrow> v)"

text \<open>The name Go's \<^verbatim>\<open>%T\<close> verb prints for a dynamic type.\<close>

fun type_name :: "val \<Rightarrow> string" where
  "type_name VNil = ''<nil>''"
| "type_name (VStr s) = ''string''"
| "type_name (VInt i) = ''int64''"
| "type_name (VBool b) = ''bool''"
| "type_name (VStrs ss) = ''[]string''"
| "type_name (VList vs) = ''[]interface {}''"
| "type_name (VRows rs) = ''[]map[string]interface {}''"
| "type_name (VMap m) = ''map[string]interface {}''"
| "type_name (VEnums m) = ''map[string][]string''"

text \<open>The \<^verbatim>\<open>%q\<close> verb on the keys the code uses (plain ASCII identifiers).\<close>

definition quote :: "string \<Rightarrow> string" where
  "quote s = [CHR 0x22] @ s @ [CHR 0x22]"

definition safeGetMap :: "val \<Rightarrow> error + row" where
  "safeGetMap obj =
     (case obj of
        VNil \<Rightarrow> Inl (Errorf ''nil value cannot be converted to map'' None)
      | VMap mapVal \<Rightarrow> Inr mapVal
      | _ \<Rightarrow> Inl (Errorf (''value is not a map[string]interface{}: '' @ type_name obj) None))"

definition safeGetString :: "row \<Rightarrow> string \<Rightarrow> error + string" where
  "safeGetString m key =
     (case map_of m key of
        None \<Rightarrow> Inl (Errorf (''key '' @ quote key @ '' not found in map'') None)
      | Some v \<Rightarrow>
          (case assertString (Some v) of
             None \<Rightarrow> Inl (Errorf (''value for key '' @ quote key @ '' is not a string: '' @ type_name v) None)
           | Some strVal \<Rightarrow> Inr strVal))"

section \<open>The database collaborator and the fallback executor\<close>

record queryWithArgs =
  query :: string
  args :: "val list"

text \<open>
  Modelled from the spec: the row cursor \<^verbatim>\<open>*sql.Rows\<close> and \<^verbatim>\<open>rowsToMaps\<close> (the Row
  Normalizer) are not in the source. The spec has the normalizer turn a cursor into the
  ordered sequence of rows, each a mapping from column name to value, in the cursor's
  order, or fail. A cursor is the rows it will yield and the error, if any, that
  reading it ends with.
\<close>

datatype sqlRows = SqlRows "row list" "error option"

fun rowsToMaps :: "sqlRows \<Rightarrow> error + row list" where
  "rowsToMaps (SqlRows rs None) = Inr rs"
| "rowsToMaps (SqlRows rs (Some e)) = Inl e"

text \<open>
  The interface \<^verbatim>\<open>db.Database\<close>: its driver name and its \<^verbatim>\<open>Query\<close> method. The database
  is an external, stateful collaborator: what it answers may depend on everything asked
  before. The state threaded through every function below is the trace of the queries
  issued so far, oldest first; \<open>respond\<close> answers a query given that trace. Contexts,
  deadlines and log lines are left out.
\<close>

type_synonym trace = "queryWithArgs list"

record database =
  DriverName :: string
  respond :: "trace \<Rightarrow> queryWithArgs \<Rightarrow> error + sqlRows"

definition Query :: "database \<Rightarrow> queryWithArgs \<Rightarrow> trace \<Rightarrow> (error + sqlRows) \<times> trace" where
  "Query db q tr = (respond db tr q, tr @ [q])"

text \<open>
  The loop of \<^verbatim>\<open>executeWithFallbacks\<close>, with \<^verbatim>\<open>lastErr\<close> as an accumulator: \<open>Inr\<close> is the
  early return of the first successful cursor, \<open>Inl\<close> the value of \<^verbatim>\<open>lastErr\<close> when the
  range is exhausted (still nil for an empty list).
\<close>

fun fallbackLoop ::
  "database \<Rightarrow> queryWithArgs list \<Rightarrow> error option \<Rightarrow> trace \<Rightarrow> (error option + sqlRows) \<times> trace" where
  "fallbackLoop db [] lastErr tr = (Inl lastErr, tr)"
| "fallbackLoop db (q # qs) lastErr tr =
     (case Query db q tr of
        (Inr rows, tr') \<Rightarrow> (Inr rows, tr')
      | (Inl err, tr') \<Rightarrow> fallbackLoop db qs (Some err) tr')"

definition executeWithFallbacks ::
  "database \<Rightarrow> queryWithArgs list \<Rightarrow> string \<Rightarrow> trace \<Rightarrow> (error + sqlRows) \<times> trace" where
  "executeWithFallbacks db queries operationName tr =
     (case fallbackLoop db queries None tr of
        (Inr rows, tr') \<Rightarrow> (Inr rows, tr')
      | (Inl lastErr, tr') \<Rightarrow>
          (Inl (Errorf (operationName @ '' failed after trying '' @ itoa (length queries)
                          @ '' fallback queries: '') lastErr), tr'))"

section \<open>Dialect strategies\<close>

text \<open>
  The query texts are the string literals of the source. A raw (back-quoted) literal
  spans several lines, each indented with tabs: \<open>sql_lines\<close> rebuilds it from its lines,
  given as the number of leading tabs and the rest of the line, joined by newlines.
\<close>

fun join_lines :: "string list \<Rightarrow> string" where
  "join_lines [] = []"
| "join_lines [l] = l"
| "join_lines (l # ls) = l @ [CHR 0x0A] @ join_lines ls"

definition sql_lines :: "(nat \<times> string) list \<Rightarrow> string" where
  "sql_lines ls = join_lines (map (\<lambda>(n, s). replicate n (CHR 0x09) @ s) ls)"

datatype strategy = PostgresStrategy | MySQLStrategy | GenericStrategy

definition NewDatabaseStrategy :: "string \<Rightarrow> strategy" where
  "NewDatabaseStrategy driverName =
     (if driverName = ''postgres'' then PostgresStrategy
      else if driverName = ''mysql'' then MySQLStrategy
      else GenericStrategy)"

subsection \<open>Query texts\<close>

definition pg_tables_1 :: string where
  "pg_tables_1 = ''SELECT tablename as table_name FROM pg_catalog.pg_tables WHERE schemaname = 'public'' @ [CHR 0x27]"

definition pg_tables_2 :: string where
  "pg_tables_2 = ''SELECT table_name FROM information_schema.tables WHERE table_schema = 'public'' @ [CHR 0x27]"

definition pg_tables_3 :: string where
  "pg_tables_3 = ''SELECT relname as table_name FROM pg_catalog.pg_class WHERE relkind = 'r' AND relnamespace = (SELECT oid FROM pg_catalog.pg_namespace WHERE nspname = 'public')''"

definition mysql_tables_1 :: string where
  "mysql_tables_1 = ''SELECT table_name FROM information_schema.tables WHERE table_schema = DATABASE()''"

definition mysql_tables_2 :: string where
  "mysql_tables_2 = ''SHOW TABLES''"

definition generic_tables_1 :: string where
  "generic_tables_1 = ''SELECT table_name FROM information_schema.tables WHERE table_schema = 'public'' @ [CHR 0x27]"

definition generic_tables_2 :: string where
  "generic_tables_2 = ''SELECT table_name FROM information_schema.tables''"

definition generic_tables_3 :: string where
  "generic_tables_3 = ''SHOW TABLES''"

definition pg_columns_1 :: string where
  "pg_columns_1 = sql_lines
    [(0, ''''),
     (4, ''SELECT ''),
     (5, ''column_name, ''),
     (5, ''data_type,''),
     (5, ''udt_name,''),
     (5, ''CASE WHEN is_nullable = 'YES' THEN 'YES' ELSE 'NO' END as is_nullable,''),
     (5, ''column_default''),
     (4, ''FROM information_schema.columns ''),
     (4, ''WHERE table_name = $1 AND table_schema = 'public'' @ [CHR 0x27]),
     (4, ''ORDER BY ordinal_position''),
     (3, '''')]"

definition pg_columns_2 :: string where
  "pg_columns_2 = sql_lines
    [(0, ''''),
     (4, ''SELECT ''),
     (5, ''a.attname as column_name, ''),
     (5, ''pg_catalog.format_type(a.atttypid, a.atttypmod) as data_type,''),
     (5, ''t.typname as udt_name,''),
     (5, ''CASE WHEN a.attnotnull THEN 'NO' ELSE 'YES' END as is_nullable,''),
     (5, ''pg_catalog.pg_get_expr(d.adbin, d.adrelid) as column_default''),
     (4, ''FROM pg_catalog.pg_attribute a''),
     (4, ''LEFT JOIN pg_catalog.pg_attrdef d ON (a.attrelid = d.adrelid AND a.attnum = d.adnum)''),
     (4, ''LEFT JOIN pg_catalog.pg_type t ON a.atttypid = t.oid''),
     (4, ''WHERE a.attrelid = (SELECT oid FROM pg_catalog.pg_class WHERE relname = $1 AND relnamespace = (SELECT oid FROM pg_catalog.pg_namespace WHERE nspname = 'public'))''),
     (4, ''AND a.attnum > 0 AND NOT a.attisdropped''),
     (4, ''ORDER BY a.attnum''),
     (3, '''')]"

definition pg_relationships_1 :: string where
  "pg_relationships_1 = sql_lines
    [(0, ''''),
     (4, ''SELECT''),
     (5, ''tc.table_schema,''),
     (5, ''tc.constraint_name,''),
     (5, ''tc.table_name,''),
     (5, ''kcu.column_name,''),
     (5, ''ccu.table_schema AS foreign_table_schema,''),
     (5, ''ccu.table_name AS foreign_table_name,''),
     (5, ''ccu.column_name AS foreign_column_name''),
     (4, ''FROM information_schema.table_constraints AS tc''),
     (4, ''JOIN information_schema.key_column_usage AS kcu''),
     (5, ''ON tc.constraint_name = kcu.constraint_name''),
     (5, ''AND tc.table_schema = kcu.table_schema''),
     (4, ''JOIN information_schema.constraint_column_usage AS ccu''),
     (5, ''ON ccu.constraint_name = tc.constraint_name''),
     (5, ''AND ccu.table_schema = tc.table_schema''),
     (4, ''WHERE tc.constraint_type = 'FOREIGN KEY'' @ [CHR 0x27]),
     (5, ''AND tc.table_schema = 'public'' @ [CHR 0x27]),
     (3, '''')]"

definition pg_relationships_2 :: string where
  "pg_relationships_2 = sql_lines
    [(0, ''''),
     (4, ''SELECT''),
     (5, ''ns.nspname AS table_schema,''),
     (5, ''c.conname AS constraint_name,''),
     (5, ''cl.relname AS table_name,''),
     (5, ''att.attname AS column_name,''),
     (5, ''ns2.nspname AS foreign_table_schema,''),
     (5, ''cl2.relname AS foreign_table_name,''),
     (5, ''att2.attname AS foreign_column_name''),
     (4, ''FROM pg_constraint c''),
     (4, ''JOIN pg_class cl ON c.conrelid = cl.oid''),
     (4, ''JOIN pg_attribute att ON att.attrelid = cl.oid AND att.attnum = ANY(c.conkey)''),
     (4, ''JOIN pg_namespace ns ON ns.oid = cl.relnamespace''),
     (4, ''JOIN pg_class cl2 ON c.confrelid = cl2.oid''),
     (4, ''JOIN pg_attribute att2 ON att2.attrelid = cl2.oid AND att2.attnum = ANY(c.confkey)''),
     (4, ''JOIN pg_namespace ns2 ON ns2.oid = cl2.relnamespace''),
     (4, ''WHERE c.contype = 'f'' @ [CHR 0x27]),
     (4, ''AND ns.nspname = 'public'' @ [CHR 0x27]),
     (3, '''')]"

definition pg_primary_keys_all :: string where
  "pg_primary_keys_all = sql_lines
    [(0, ''''),
     (4, ''SELECT ''),
     (5, ''tc.table_name,''),
     (5, ''kcu.column_name,''),
     (5, ''tc.constraint_name''),
     (4, ''FROM information_schema.table_constraints tc''),
     (4, ''JOIN information_schema.key_column_usage kcu ''),
     (5, ''ON tc.constraint_name = kcu.constraint_name''),
     (5, ''AND tc.table_schema = kcu.table_schema''),
     (4, ''WHERE tc.constraint_type = 'PRIMARY KEY' ''),
     (5, ''AND tc.table_schema = 'public'' @ [CHR 0x27]),
     (4, ''ORDER BY tc.table_name, kcu.ordinal_position''),
     (3, '''')]"

definition pg_primary_keys_table :: string where
  "pg_primary_keys_table = sql_lines
    [(0, ''''),
     (4, ''SELECT ''),
     (5, ''tc.table_name,''),
     (5, ''kcu.column_name,''),
     (5, ''tc.constraint_name''),
     (4, ''FROM information_schema.table_constraints tc''),
     (4, ''JOIN information_schema.key_column_usage kcu ''),
     (5, ''ON tc.constraint_name = kcu.constraint_name''),
     (5, ''AND tc.table_schema = kcu.table_schema''),
     (4, ''WHERE tc.constraint_type = 'PRIMARY KEY' ''),
     (5, ''AND tc.table_schema = 'public'' @ [CHR 0x27]),
     (5, ''AND tc.table_name = $1''),
     (4, ''ORDER BY kcu.ordinal_position''),
     (3, '''')]"

definition pg_indexes_all :: string where
  "pg_indexes_all = sql_lines
    [(0, ''''),
     (4, ''SELECT ''),
     (5, ''tablename,''),
     (5, ''indexname,''),
     (5, ''indexdef''),
     (4, ''FROM pg_indexes''),
     (4, ''WHERE schemaname = 'public'' @ [CHR 0x27]),
     (4, ''ORDER BY tablename, indexname''),
     (3, '''')]"

definition pg_indexes_table :: string where
  "pg_indexes_table = sql_lines
    [(0, ''''),
     (4, ''SELECT ''),
     (5, ''tablename,''),
     (5, ''indexname,''),
     (5, ''indexdef''),
     (4, ''FROM pg_indexes''),
     (4, ''WHERE schemaname = 'public'' @ [CHR 0x27]),
     (5, ''AND tablename = $1''),
     (4, ''ORDER BY indexname''),
     (3, '''')]"

definition pg_enum_values_1 :: string where
  "pg_enum_values_1 = sql_lines
    [(0, ''''),
     (4, ''SELECT ''),
     (5, ''t.typname as enum_name,''),
     (5, ''n.nspname as schema_name,''),
     (5, ''e.enumlabel as enum_value,''),
     (5, ''e.enumsortorder as sort_order''),
     (4, ''FROM pg_type t''),
     (4, ''JOIN pg_enum e ON t.oid = e.enumtypid''),
     (4, ''JOIN pg_catalog.pg_namespace n ON n.oid = t.typnamespace''),
     (4, ''WHERE n.nspname = 'public'' @ [CHR 0x27]),
     (4, ''ORDER BY t.typname, e.enumsortorder''),
     (3, '''')]"

definition pg_unique_all :: string where
  "pg_unique_all = sql_lines
    [(0, ''''),
     (4, ''SELECT ''),
     (5, ''tc.table_name,''),
     (5, ''tc.constraint_name,''),
     (5, ''tc.constraint_type,''),
     (5, ''STRING_AGG(kcu.column_name, ', ' ORDER BY kcu.ordinal_position) as column_names''),
     (4, ''FROM information_schema.table_constraints tc''),
     (4, ''JOIN information_schema.key_column_usage kcu ''),
     (5, ''ON tc.constraint_name = kcu.constraint_name''),
     (5, ''AND tc.table_schema = kcu.table_schema''),
     (4, ''WHERE tc.constraint_type IN ('UNIQUE', 'PRIMARY KEY') ''),
     (5, ''AND tc.table_schema = 'public'' @ [CHR 0x27]),
     (4, ''GROUP BY tc.table_name, tc.constraint_name, tc.constraint_type''),
     (4, ''ORDER BY tc.table_name, tc.constraint_name''),
     (3, '''')]"

definition pg_unique_table :: string where
  "pg_unique_table = sql_lines
    [(0, ''''),
     (4, ''SELECT ''),
     (5, ''tc.table_name,''),
     (5, ''tc.constraint_name,''),
     (5, ''tc.constraint_type,''),
     (5, ''STRING_AGG(kcu.column_name, ', ' ORDER BY kcu.ordinal_position) as column_names''),
     (4, ''FROM information_schema.table_constraints tc''),
     (4, ''JOIN information_schema.key_column_usage kcu ''),
     (5, ''ON tc.constraint_name = kcu.constraint_name''),
     (5, ''AND tc.table_schema = kcu.table_schema''),
     (4, ''WHERE tc.constraint_type IN ('UNIQUE', 'PRIMARY KEY') ''),
     (5, ''AND tc.table_schema = 'public'' @ [CHR 0x27]),
     (5, ''AND tc.table_name = $1''),
     (4, ''GROUP BY tc.table_name, tc.constraint_name, tc.constraint_type''),
     (4, ''ORDER BY tc.constraint_name''),
     (3, '''')]"

definition pg_stats_all :: string where
  "pg_stats_all = sql_lines
    [(0, ''''),
     (4, ''SELECT ''),
     (5, ''schemaname,''),
     (5, ''relname as table_name,''),
     (5, ''n_live_tup as row_count_estimate,''),
     (5, ''n_dead_tup as dead_tuples,''),
     (5, ''last_vacuum,''),
     (5, ''last_autovacuum,''),
     (5, ''last_analyze,''),
     (5, ''last_autoanalyze''),
     (4, ''FROM pg_stat_user_tables''),
     (4, ''WHERE schemaname = 'public'' @ [CHR 0x27]),
     (4, ''ORDER BY relname''),
     (3, '''')]"

definition pg_stats_table :: string where
  "pg_stats_table = sql_lines
    [(0, ''''),
     (4, ''SELECT ''),
     (5, ''schemaname,''),
     (5, ''relname as table_name,''),
     (5, ''n_live_tup as row_count_estimate,''),
     (5, ''n_dead_tup as dead_tuples,''),
     (5, ''last_vacuum,''),
     (5, ''last_autovacuum,''),
     (5, ''last_analyze,''),
     (5, ''last_autoanalyze''),
     (4, ''FROM pg_stat_user_tables''),
     (4, ''WHERE schemaname = 'public'' @ [CHR 0x27]),
     (5, ''AND relname = $1''),
     (3, '''')]"

definition mysql_columns_1 :: string where
  "mysql_columns_1 = sql_lines
    [(0, ''''),
     (4, ''SELECT column_name, data_type, is_nullable, column_default''),
     (4, ''FROM information_schema.columns''),
     (4, ''WHERE table_name = ? AND table_schema = DATABASE()''),
     (4, ''ORDER BY ordinal_position''),
     (3, '''')]"

definition mysql_show_columns :: string where
  "mysql_show_columns = sql_lines
    [(0, ''SHOW COLUMNS FROM '')]"

definition mysql_relationships_1 :: string where
  "mysql_relationships_1 = sql_lines
    [(0, ''''),
     (4, ''SELECT''),
     (5, ''tc.table_schema,''),
     (5, ''tc.constraint_name,''),
     (5, ''tc.table_name,''),
     (5, ''kcu.column_name,''),
     (5, ''kcu.referenced_table_schema AS foreign_table_schema,''),
     (5, ''kcu.referenced_table_name AS foreign_table_name,''),
     (5, ''kcu.referenced_column_name AS foreign_column_name''),
     (4, ''FROM information_schema.table_constraints AS tc''),
     (4, ''JOIN information_schema.key_column_usage AS kcu''),
     (5, ''ON tc.constraint_name = kcu.constraint_name''),
     (5, ''AND tc.table_schema = kcu.table_schema''),
     (4, ''WHERE tc.constraint_type = 'FOREIGN KEY'' @ [CHR 0x27]),
     (5, ''AND tc.table_schema = DATABASE()''),
     (3, '''')]"

definition mysql_relationships_2 :: string where
  "mysql_relationships_2 = sql_lines
    [(0, ''''),
     (4, ''SELECT''),
     (5, ''kcu.constraint_schema AS table_schema,''),
     (5, ''kcu.constraint_name,''),
     (5, ''kcu.table_name,''),
     (5, ''kcu.column_name,''),
     (5, ''kcu.referenced_table_schema AS foreign_table_schema,''),
     (5, ''kcu.referenced_table_name AS foreign_table_name,''),
     (5, ''kcu.referenced_column_name AS foreign_column_name''),
     (4, ''FROM information_schema.key_column_usage kcu''),
     (4, ''WHERE kcu.referenced_table_name IS NOT NULL''),
     (5, ''AND kcu.constraint_schema = DATABASE()''),
     (3, '''')]"

definition mysql_primary_keys_base :: string where
  "mysql_primary_keys_base = sql_lines
    [(0, ''''),
     (2, ''SELECT ''),
     (3, ''tc.table_name,''),
     (3, ''kcu.column_name,''),
     (3, ''tc.constraint_name''),
     (2, ''FROM information_schema.table_constraints tc''),
     (2, ''JOIN information_schema.key_column_usage kcu ''),
     (3, ''ON tc.constraint_name = kcu.constraint_name''),
     (3, ''AND tc.table_schema = kcu.table_schema''),
     (2, ''WHERE tc.constraint_type = 'PRIMARY KEY' ''),
     (3, ''AND tc.table_schema = DATABASE()''),
     (2, ''ORDER BY tc.table_name, kcu.ordinal_position''),
     (1, '''')]"

definition mysql_indexes_base :: string where
  "mysql_indexes_base = sql_lines
    [(0, ''''),
     (2, ''SELECT ''),
     (3, ''table_name,''),
     (3, ''index_name,''),
     (3, ''GROUP_CONCAT(column_name ORDER BY seq_in_index) as column_names,''),
     (3, ''non_unique''),
     (2, ''FROM information_schema.statistics''),
     (2, ''WHERE table_schema = DATABASE()''),
     (2, ''GROUP BY table_name, index_name, non_unique''),
     (2, ''ORDER BY table_name, index_name''),
     (1, '''')]"

definition mysql_enum_values_1 :: string where
  "mysql_enum_values_1 = sql_lines
    [(0, ''''),
     (4, ''SELECT ''),
     (5, ''c.table_name,''),
     (5, ''c.column_name as enum_name,''),
     (5, ''c.column_type as enum_definition''),
     (4, ''FROM information_schema.columns c''),
     (4, ''WHERE c.table_schema = DATABASE()''),
     (5, ''AND c.column_type LIKE 'enum(%'' @ [CHR 0x27]),
     (4, ''ORDER BY c.table_name, c.column_name''),
     (3, '''')]"

definition mysql_unique_base :: string where
  "mysql_unique_base = sql_lines
    [(0, ''''),
     (2, ''SELECT ''),
     (3, ''tc.table_name,''),
     (3, ''tc.constraint_name,''),
     (3, ''tc.constraint_type,''),
     (3, ''GROUP_CONCAT(kcu.column_name ORDER BY kcu.ordinal_position) as column_names''),
     (2, ''FROM information_schema.table_constraints tc''),
     (2, ''JOIN information_schema.key_column_usage kcu ''),
     (3, ''ON tc.constraint_name = kcu.constraint_name''),
     (3, ''AND tc.table_schema = kcu.table_schema''),
     (2, ''WHERE tc.constraint_type IN ('UNIQUE', 'PRIMARY KEY') ''),
     (3, ''AND tc.table_schema = DATABASE()''),
     (2, ''GROUP BY tc.table_name, tc.constraint_name, tc.constraint_type''),
     (2, ''ORDER BY tc.table_name, tc.constraint_name''),
     (1, '''')]"

definition mysql_stats_base :: string where
  "mysql_stats_base = sql_lines
    [(0, ''''),
     (2, ''SELECT ''),
     (3, ''table_schema,''),
     (3, ''table_name,''),
     (3, ''table_rows as row_count_estimate,''),
     (3, ''data_length,''),
     (3, ''index_length,''),
     (3, ''data_free,''),
     (3, ''create_time,''),
     (3, ''update_time''),
     (2, ''FROM information_schema.tables''),
     (2, ''WHERE table_schema = DATABASE()''),
     (2, ''ORDER BY table_name''),
     (1, '''')]"

definition generic_columns_1 :: string where
  "generic_columns_1 = sql_lines
    [(0, ''''),
     (4, ''SELECT column_name, data_type, is_nullable, column_default''),
     (4, ''FROM information_schema.columns''),
     (4, ''WHERE table_name = $1''),
     (4, ''ORDER BY ordinal_position''),
     (3, '''')]"

definition generic_columns_2 :: string where
  "generic_columns_2 = sql_lines
    [(0, ''''),
     (4, ''SELECT column_name, data_type, is_nullable, column_default''),
     (4, ''FROM information_schema.columns''),
     (4, ''WHERE table_name = ?''),
     (4, ''ORDER BY ordinal_position''),
     (3, '''')]"

definition generic_relationships_pg :: string where
  "generic_relationships_pg = sql_lines
    [(0, ''''),
     (3, ''SELECT''),
     (4, ''tc.table_schema,''),
     (4, ''tc.constraint_name,''),
     (4, ''tc.table_name,''),
     (4, ''kcu.column_name,''),
     (4, ''ccu.table_schema AS foreign_table_schema,''),
     (4, ''ccu.table_name AS foreign_table_name,''),
     (4, ''ccu.column_name AS foreign_column_name''),
     (3, ''FROM information_schema.table_constraints AS tc''),
     (3, ''JOIN information_schema.key_column_usage AS kcu''),
     (4, ''ON tc.constraint_name = kcu.constraint_name''),
     (4, ''AND tc.table_schema = kcu.table_schema''),
     (3, ''JOIN information_schema.constraint_column_usage AS ccu''),
     (4, ''ON ccu.constraint_name = tc.constraint_name''),
     (4, ''AND ccu.table_schema = tc.table_schema''),
     (3, ''WHERE tc.constraint_type = 'FOREIGN KEY'' @ [CHR 0x27]),
     (2, '''')]"

definition generic_relationships_mysql :: string where
  "generic_relationships_mysql = sql_lines
    [(0, ''''),
     (3, ''SELECT''),
     (4, ''kcu.constraint_schema AS table_schema,''),
     (4, ''kcu.constraint_name,''),
     (4, ''kcu.table_name,''),
     (4, ''kcu.column_name,''),
     (4, ''kcu.referenced_table_schema AS foreign_table_schema,''),
     (4, ''kcu.referenced_table_name AS foreign_table_name,''),
     (4, ''kcu.referenced_column_name AS foreign_column_name''),
     (3, ''FROM information_schema.key_column_usage kcu''),
     (3, ''WHERE kcu.referenced_table_name IS NOT NULL''),
     (2, '''')]"

definition generic_primary_keys_base :: string where
  "generic_primary_keys_base = sql_lines
    [(0, ''''),
     (2, ''SELECT ''),
     (3, ''tc.table_name,''),
     (3, ''kcu.column_name,''),
     (3, ''tc.constraint_name''),
     (2, ''FROM information_schema.table_constraints tc''),
     (2, ''JOIN information_schema.key_column_usage kcu ''),
     (3, ''ON tc.constraint_name = kcu.constraint_name''),
     (2, ''WHERE tc.constraint_type = 'PRIMARY KEY'' @ [CHR 0x27]),
     (2, ''ORDER BY tc.table_name, kcu.ordinal_position''),
     (1, '''')]"

definition generic_indexes_base :: string where
  "generic_indexes_base = sql_lines
    [(0, ''''),
     (2, ''SELECT ''),
     (3, ''table_name,''),
     (3, ''index_name,''),
     (3, ''column_name''),
     (2, ''FROM information_schema.statistics''),
     (2, ''ORDER BY table_name, index_name''),
     (1, '''')]"

definition generic_enum_values_1 :: string where
  "generic_enum_values_1 = sql_lines
    [(0, ''''),
     (4, ''SELECT ''),
     (5, ''t.typname as enum_name,''),
     (5, ''n.nspname as schema_name,''),
     (5, ''e.enumlabel as enum_value,''),
     (5, ''e.enumsortorder as sort_order''),
     (4, ''FROM pg_type t''),
     (4, ''JOIN pg_enum e ON t.oid = e.enumtypid''),
     (4, ''JOIN pg_catalog.pg_namespace n ON n.oid = t.typnamespace''),
     (4, ''WHERE n.nspname = 'public'' @ [CHR 0x27]),
     (4, ''ORDER BY t.typname, e.enumsortorder''),
     (3, '''')]"

definition generic_enum_values_2 :: string where
  "generic_enum_values_2 = sql_lines
    [(0, ''''),
     (4, ''SELECT ''),
     (5, ''c.table_name,''),
     (5, ''c.column_name as enum_name,''),
     (5, ''c.column_type as enum_definition''),
     (4, ''FROM information_schema.columns c''),
     (4, ''WHERE c.table_schema = DATABASE()''),
     (5, ''AND c.column_type LIKE 'enum(%'' @ [CHR 0x27]),
     (4, ''ORDER BY c.table_name, c.column_name''),
     (3, '''')]"

definition generic_unique_base :: string where
  "generic_unique_base = sql_lines
    [(0, ''''),
     (2, ''SELECT ''),
     (3, ''tc.table_name,''),
     (3, ''tc.constraint_name,''),
     (3, ''tc.constraint_type,''),
     (3, ''kcu.column_name''),
     (2, ''FROM information_schema.table_constraints tc''),
     (2, ''JOIN information_schema.key_column_usage kcu ''),
     (3, ''ON tc.constraint_name = kcu.constraint_name''),
     (2, ''WHERE tc.constraint_type IN ('UNIQUE', 'PRIMARY KEY')''),
     (2, ''ORDER BY tc.table_name, tc.constraint_name, kcu.ordinal_position''),
     (1, '''')]"

definition generic_stats_pg :: string where
  "generic_stats_pg = sql_lines
    [(0, ''''),
     (3, ''SELECT ''),
     (4, ''schemaname,''),
     (4, ''relname as table_name,''),
     (4, ''n_live_tup as row_count_estimate,''),
     (4, ''n_dead_tup as dead_tuples,''),
     (4, ''last_vacuum,''),
     (4, ''last_autovacuum,''),
     (4, ''last_analyze,''),
     (4, ''last_autoanalyze''),
     (3, ''FROM pg_stat_user_tables''),
     (3, ''WHERE schemaname = 'public'' @ [CHR 0x27]),
     (2, '''')]"

definition generic_stats_mysql :: string where
  "generic_stats_mysql = sql_lines
    [(0, ''''),
     (3, ''SELECT ''),
     (4, ''table_schema,''),
     (4, ''table_name,''),
     (4, ''table_rows as row_count_estimate,''),
     (4, ''data_length,''),
     (4, ''index_length,''),
     (4, ''data_free,''),
     (4, ''create_time,''),
     (4, ''update_time''),
     (3, ''FROM information_schema.tables''),
     (3, ''WHERE table_schema = DATABASE()''),
     (2, '''')]"

subsection \<open>The eight facet operations of each strategy\<close>

text \<open>
  A candidate written without an \<^verbatim>\<open>args\<close> field has the nil argument list, which is \<open>[]\<close>
  like the empty one.
\<close>

fun GetTablesQueries :: "strategy \<Rightarrow> queryWithArgs list" where
  "GetTablesQueries PostgresStrategy =
     [\<lparr>query = pg_tables_1, args = []\<rparr>,
      \<lparr>query = pg_tables_2, args = []\<rparr>,
      \<lparr>query = pg_tables_3, args = []\<rparr>]"
| "GetTablesQueries MySQLStrategy =
     [\<lparr>query = mysql_tables_1, args = []\<rparr>,
      \<lparr>query = mysql_tables_2, args = []\<rparr>]"
| "GetTablesQueries GenericStrategy =
     [\<lparr>query = generic_tables_1, args = []\<rparr>,
      \<lparr>query = generic_tables_2, args = []\<rparr>,
      \<lparr>query = generic_tables_3, args = []\<rparr>]"

fun GetColumnsQueries :: "strategy \<Rightarrow> string \<Rightarrow> queryWithArgs list" where
  "GetColumnsQueries PostgresStrategy table =
     [\<lparr>query = pg_columns_1, args = [VStr table]\<rparr>,
      \<lparr>query = pg_columns_2, args = [VStr table]\<rparr>]"
| "GetColumnsQueries MySQLStrategy table =
     [\<lparr>query = mysql_columns_1, args = [VStr table]\<rparr>,
      \<lparr>query = mysql_show_columns @ table, args = []\<rparr>]"
| "GetColumnsQueries GenericStrategy table =
     [\<lparr>query = generic_columns_1, args = [VStr table]\<rparr>,
      \<lparr>query = generic_columns_2, args = [VStr table]\<rparr>]"

fun GetRelationshipsQueries :: "strategy \<Rightarrow> string \<Rightarrow> queryWithArgs list" where
  "GetRelationshipsQueries PostgresStrategy table =
     (let baseQueries = [\<lparr>query = pg_relationships_1, args = []\<rparr>,
                         \<lparr>query = pg_relationships_2, args = []\<rparr>]
      in if table = '''' then baseQueries
         else [\<lparr>query = pg_relationships_1 @ '' AND (tc.table_name = $1 OR ccu.table_name = $1)'',
                args = [VStr table]\<rparr>,
               \<lparr>query = pg_relationships_2 @ '' AND (cl.relname = $1 OR cl2.relname = $1)'',
                args = [VStr table]\<rparr>])"
| "GetRelationshipsQueries MySQLStrategy table =
     (let baseQueries = [\<lparr>query = mysql_relationships_1, args = []\<rparr>,
                         \<lparr>query = mysql_relationships_2, args = []\<rparr>]
      in if table = '''' then baseQueries
         else [\<lparr>query = mysql_relationships_1 @ '' AND (tc.table_name = ? OR kcu.referenced_table_name = ?)'',
                args = [VStr table, VStr table]\<rparr>,
               \<lparr>query = mysql_relationships_2 @ '' AND (kcu.table_name = ? OR kcu.referenced_table_name = ?)'',
                args = [VStr table, VStr table]\<rparr>])"
| "GetRelationshipsQueries GenericStrategy table =
     (let pgQuery = \<lparr>query = generic_relationships_pg, args = []\<rparr>;
          mysqlQuery = \<lparr>query = generic_relationships_mysql, args = []\<rparr>
      in if table \<noteq> '''' then
           [pgQuery\<lparr>query := query pgQuery @ '' AND (tc.table_name = $1 OR ccu.table_name = $1)'',
                    args := args pgQuery @ [VStr table]\<rparr>,
            mysqlQuery\<lparr>query := query mysqlQuery @ '' AND (kcu.table_name = ? OR kcu.referenced_table_name = ?)'',
                       args := args mysqlQuery @ [VStr table, VStr table]\<rparr>]
         else [pgQuery, mysqlQuery])"

fun GetPrimaryKeysQueries :: "strategy \<Rightarrow> string \<Rightarrow> queryWithArgs list" where
  "GetPrimaryKeysQueries PostgresStrategy table =
     (if table = '''' then [\<lparr>query = pg_primary_keys_all, args = []\<rparr>]
      else [\<lparr>query = pg_primary_keys_table, args = [VStr table]\<rparr>])"
| "GetPrimaryKeysQueries MySQLStrategy table =
     (let baseQuery = mysql_primary_keys_base
      in if table = '''' then [\<lparr>query = baseQuery, args = []\<rparr>]
         else [\<lparr>query = baseQuery @ '' AND tc.table_name = ?'', args = [VStr table]\<rparr>])"
| "GetPrimaryKeysQueries GenericStrategy table =
     (let baseQuery = generic_primary_keys_base
      in if table = '''' then [\<lparr>query = baseQuery, args = []\<rparr>]
         else [\<lparr>query = baseQuery @ '' AND tc.table_name = ?'', args = [VStr table]\<rparr>])"

fun GetIndexesQueries :: "strategy \<Rightarrow> string \<Rightarrow> queryWithArgs list" where
  "GetIndexesQueries PostgresStrategy table =
     (if table = '''' then [\<lparr>query = pg_indexes_all, args = []\<rparr>]
      else [\<lparr>query = pg_indexes_table, args = [VStr table]\<rparr>])"
| "GetIndexesQueries MySQLStrategy table =
     (let baseQuery = mysql_indexes_base
      in if table = '''' then [\<lparr>query = baseQuery, args = []\<rparr>]
         else [\<lparr>query = baseQuery @ '' HAVING table_name = ?'', args = [VStr table]\<rparr>])"
| "GetIndexesQueries GenericStrategy table =
     (let baseQuery = generic_indexes_base
      in if table = '''' then [\<lparr>query = baseQuery, args = []\<rparr>]
         else [\<lparr>query = baseQuery @ '' WHERE table_name = ?'', args = [VStr table]\<rparr>])"

fun GetEnumValuesQueries :: "strategy \<Rightarrow> queryWithArgs list" where
  "GetEnumValuesQueries PostgresStrategy = [\<lparr>query = pg_enum_values_1, args = []\<rparr>]"
| "GetEnumValuesQueries MySQLStrategy = [\<lparr>query = mysql_enum_values_1, args = []\<rparr>]"
| "GetEnumValuesQueries GenericStrategy =
     [\<lparr>query = generic_enum_values_1, args = []\<rparr>,
      \<lparr>query = generic_enum_values_2, args = []\<rparr>]"

fun GetUniqueConstraintsQueries :: "strategy \<Rightarrow> string \<Rightarrow> queryWithArgs list" where
  "GetUniqueConstraintsQueries PostgresStrategy table =
     (if table = '''' then [\<lparr>query = pg_unique_all, args = []\<rparr>]
      else [\<lparr>query = pg_unique_table, args = [VStr table]\<rparr>])"
| "GetUniqueConstraintsQueries MySQLStrategy table =
     (let baseQuery = mysql_unique_base
      in if table = '''' then [\<lparr>query = baseQuery, args = []\<rparr>]
         else [\<lparr>query = baseQuery @ '' HAVING tc.table_name = ?'', args = [VStr table]\<rparr>])"
| "GetUniqueConstraintsQueries GenericStrategy table =
     (let baseQuery = generic_unique_base
      in if table = '''' then [\<lparr>query = baseQuery, args = []\<rparr>]
         else [\<lparr>query = baseQuery @ '' AND tc.table_name = ?'', args = [VStr table]\<rparr>])"

fun GetTableStatsQueries :: "strategy \<Rightarrow> string \<Rightarrow> queryWithArgs list" where
  "GetTableStatsQueries PostgresStrategy table =
     (if table = '''' then [\<lparr>query = pg_stats_all, args = []\<rparr>]
      else [\<lparr>query = pg_stats_table, args = [VStr table]\<rparr>])"
| "GetTableStatsQueries MySQLStrategy table =
     (let baseQuery = mysql_stats_base
      in if table = '''' then [\<lparr>query = baseQuery, args = []\<rparr>]
         else [\<lparr>query = baseQuery @ '' AND table_name = ?'', args = [VStr table]\<rparr>])"
| "GetTableStatsQueries GenericStrategy table =
     (let pgQuery = \<lparr>query = generic_stats_pg, args = []\<rparr>;
          mysqlQuery = \<lparr>query = generic_stats_mysql, args = []\<rparr>
      in if table \<noteq> '''' then
           [pgQuery\<lparr>query := query pgQuery @ '' AND relname = $1'',
                    args := args pgQuery @ [VStr table]\<rparr>,
            mysqlQuery\<lparr>query := query mysqlQuery @ '' AND table_name = ?'',
                       args := args mysqlQuery @ [VStr table]\<rparr>]
         else [pgQuery\<lparr>query := query pgQuery @ '' ORDER BY relname''\<rparr>,
               mysqlQuery\<lparr>query := query mysqlQuery @ '' ORDER BY table_name''\<rparr>])"

section \<open>Schema assembler\<close>

definition getTables :: "database \<Rightarrow> trace \<Rightarrow> (error + val) \<times> trace" where
  "getTables db tr =
     (let driverName = DriverName db;
          dbType = driverName;
          strategy = NewDatabaseStrategy driverName;
          queries = GetTablesQueries strategy
      in case executeWithFallbacks db queries ''getTables'' tr of
           (Inl err, tr') \<Rightarrow> (Inl (Errorf ''failed to get tables: '' (Some err)), tr')
         | (Inr rows, tr') \<Rightarrow>
             (case rowsToMaps rows of
                Inl err \<Rightarrow> (Inl (Errorf ''failed to process tables: '' (Some err)), tr')
              | Inr results \<Rightarrow>
                  (Inr (VMap [(''tables'', VRows results), (''dbType'', VStr dbType)]), tr')))"

definition getColumns :: "database \<Rightarrow> string \<Rightarrow> trace \<Rightarrow> (error + val) \<times> trace" where
  "getColumns db table tr =
     (let driverName = DriverName db;
          dbType = driverName;
          strategy = NewDatabaseStrategy driverName;
          queries = GetColumnsQueries strategy table
      in case executeWithFallbacks db queries (''getColumns['' @ table @ '']'') tr of
           (Inl err, tr') \<Rightarrow>
             (Inl (Errorf (''failed to get columns for table '' @ table @ '': '') (Some err)), tr')
         | (Inr rows, tr') \<Rightarrow>
             (case rowsToMaps rows of
                Inl err \<Rightarrow> (Inl (Errorf ''failed to process columns: '' (Some err)), tr')
              | Inr results \<Rightarrow>
                  (Inr (VMap [(''table'', VStr table), (''columns'', VRows results),
                              (''dbType'', VStr dbType)]), tr')))"

definition getRelationships :: "database \<Rightarrow> string \<Rightarrow> trace \<Rightarrow> (error + val) \<times> trace" where
  "getRelationships db table tr =
     (let driverName = DriverName db;
          dbType = driverName;
          strategy = NewDatabaseStrategy driverName;
          queries = GetRelationshipsQueries strategy table
      in case executeWithFallbacks db queries ''getRelationships'' tr of
           (Inl err, tr') \<Rightarrow>
             (Inl (Errorf (''failed to get relationships for table '' @ table @ '': '') (Some err)), tr')
         | (Inr rows, tr') \<Rightarrow>
             (case rowsToMaps rows of
                Inl err \<Rightarrow> (Inl (Errorf ''failed to process relationships: '' (Some err)), tr')
              | Inr results \<Rightarrow>
                  (Inr (VMap [(''relationships'', VRows results), (''dbType'', VStr dbType),
                              (''table'', VStr table)]), tr')))"

definition getPrimaryKeys :: "database \<Rightarrow> string \<Rightarrow> trace \<Rightarrow> (error + val) \<times> trace" where
  "getPrimaryKeys db table tr =
     (let driverName = DriverName db;
          dbType = driverName;
          strategy = NewDatabaseStrategy driverName;
          queries = GetPrimaryKeysQueries strategy table
      in case executeWithFallbacks db queries ''getPrimaryKeys'' tr of
           (Inl err, tr') \<Rightarrow>
             (Inl (Errorf (''failed to get primary keys for table '' @ table @ '': '') (Some err)), tr')
         | (Inr rows, tr') \<Rightarrow>
             (case rowsToMaps rows of
                Inl err \<Rightarrow> (Inl (Errorf ''failed to process primary keys: '' (Some err)), tr')
              | Inr results \<Rightarrow>
                  (Inr (VMap [(''primary_keys'', VRows results), (''dbType'', VStr dbType),
                              (''table'', VStr table)]), tr')))"

definition getIndexes :: "database \<Rightarrow> string \<Rightarrow> trace \<Rightarrow> (error + val) \<times> trace" where
  "getIndexes db table tr =
     (let driverName = DriverName db;
          dbType = driverName;
          strategy = NewDatabaseStrategy driverName;
          queries = GetIndexesQueries strategy table
      in case executeWithFallbacks db queries ''getIndexes'' tr of
           (Inl err, tr') \<Rightarrow>
             (Inl (Errorf (''failed to get indexes for table '' @ table @ '': '') (Some err)), tr')
         | (Inr rows, tr') \<Rightarrow>
             (case rowsToMaps rows of
                Inl err \<Rightarrow> (Inl (Errorf ''failed to process indexes: '' (Some err)), tr')
              | Inr results \<Rightarrow>
                  (Inr (VMap [(''indexes'', VRows results), (''dbType'', VStr dbType),
                              (''table'', VStr table)]), tr')))"

text \<open>
  \<^verbatim>\<open>getEnumValues\<close> and \<^verbatim>\<open>getTableStats\<close> turn the exhaustion of their candidates into an
  empty result; only a failure of the row normalizer is returned as an error.
\<close>

definition getEnumValues :: "database \<Rightarrow> trace \<Rightarrow> (error + val) \<times> trace" where
  "getEnumValues db tr =
     (let driverName = DriverName db;
          dbType = driverName;
          strategy = NewDatabaseStrategy driverName;
          queries = GetEnumValuesQueries strategy
      in case executeWithFallbacks db queries ''getEnumValues'' tr of
           (Inl err, tr') \<Rightarrow>
             (Inr (VMap [(''enums'', VRows []), (''dbType'', VStr dbType)]), tr')
         | (Inr rows, tr') \<Rightarrow>
             (case rowsToMaps rows of
                Inl err \<Rightarrow> (Inl (Errorf ''failed to process enum values: '' (Some err)), tr')
              | Inr results \<Rightarrow>
                  (Inr (VMap [(''enums'', VRows results), (''dbType'', VStr dbType)]), tr')))"

definition getUniqueConstraints :: "database \<Rightarrow> string \<Rightarrow> trace \<Rightarrow> (error + val) \<times> trace" where
  "getUniqueConstraints db table tr =
     (let driverName = DriverName db;
          dbType = driverName;
          strategy = NewDatabaseStrategy driverName;
          queries = GetUniqueConstraintsQueries strategy table
      in case executeWithFallbacks db queries ''getUniqueConstraints'' tr of
           (Inl err, tr') \<Rightarrow>
             (Inl (Errorf ''failed to get unique constraints: '' (Some err)), tr')
         | (Inr rows, tr') \<Rightarrow>
             (case rowsToMaps rows of
                Inl err \<Rightarrow> (Inl (Errorf ''failed to process unique constraints: '' (Some err)), tr')
              | Inr results \<Rightarrow>
                  (Inr (VMap [(''unique_constraints'', VRows results), (''dbType'', VStr dbType),
                              (''table'', VStr table)]), tr')))"

definition getTableStats :: "database \<Rightarrow> string \<Rightarrow> trace \<Rightarrow> (error + val) \<times> trace" where
  "getTableStats db table tr =
     (let driverName = DriverName db;
          dbType = driverName;
          strategy = NewDatabaseStrategy driverName;
          queries = GetTableStatsQueries strategy table
      in case executeWithFallbacks db queries ''getTableStats'' tr of
           (Inl err, tr') \<Rightarrow>
             (Inr (VMap [(''stats'', VRows []), (''dbType'', VStr dbType),
                         (''table'', VStr table)]), tr')
         | (Inr rows, tr') \<Rightarrow>
             (case rowsToMaps rows of
                Inl err \<Rightarrow> (Inl (Errorf ''failed to process table stats: '' (Some err)), tr')
              | Inr results \<Rightarrow>
                  (Inr (VMap [(''stats'', VRows results), (''dbType'', VStr dbType),
                              (''table'', VStr table)]), tr')))"

subsection \<open>getFullSchema, piece by piece\<close>

text \<open>
  \<^verbatim>\<open>safeGetMap\<close> with its error dropped (\<^verbatim>\<open>m, _ := safeGetMap(r)\<close>): the nil map on failure.
\<close>

definition mapOrNil :: "val \<Rightarrow> row" where
  "mapOrNil obj = (case safeGetMap obj of Inl e \<Rightarrow> [] | Inr m \<Rightarrow> m)"

text \<open>
  \<^verbatim>\<open>rows, _ := m[key].([]map[string]interface{})\<close> guarded by \<^verbatim>\<open>if ok\<close>, the variable
  staying nil otherwise.
\<close>

definition rowsOrNil :: "row \<Rightarrow> string \<Rightarrow> row list" where
  "rowsOrNil m key = (case assertRows (map_of m key) of None \<Rightarrow> [] | Some rs \<Rightarrow> rs)"

text \<open>The loop that organises enum values by type name (\<^verbatim>\<open>enumsByType\<close>).\<close>

fun organizeEnums :: "(string \<times> string list) list \<Rightarrow> row list \<Rightarrow> (string \<times> string list) list" where
  "organizeEnums enumsByType [] = enumsByType"
| "organizeEnums enumsByType (enum # rest) =
     organizeEnums
       (case assertString (map_of enum ''enum_name'') of
          None \<Rightarrow> enumsByType
        | Some enumName \<Rightarrow>
            (case assertString (map_of enum ''enum_value'') of
               None \<Rightarrow> enumsByType
             | Some enumValue \<Rightarrow>
                 AList.update enumName
                   ((case map_of enumsByType enumName of None \<Rightarrow> [] | Some vs \<Rightarrow> vs) @ [enumValue])
                   enumsByType))
       rest"

text \<open>The loop that indexes the statistics rows by table name (\<^verbatim>\<open>statsByTable\<close>).\<close>

fun organizeStats :: "(string \<times> row) list \<Rightarrow> row list \<Rightarrow> (string \<times> row) list" where
  "organizeStats statsByTable [] = statsByTable"
| "organizeStats statsByTable (stat # rest) =
     organizeStats
       (case assertString (map_of stat ''table_name'') of
          None \<Rightarrow> statsByTable
        | Some tableName \<Rightarrow> AList.update tableName stat statsByTable)
       rest"

text \<open>
  The body of the loop over the columns of one table: the column map is updated in
  place, so the enriched record is also the one stored in the table's entry.
\<close>

definition enhanceColumn :: "(string \<times> string list) list \<Rightarrow> row \<Rightarrow> row" where
  "enhanceColumn enumsByType column =
     (let dataType = (case assertString (map_of column ''data_type'') of None \<Rightarrow> '''' | Some s \<Rightarrow> s);
          udt = assertString (map_of column ''udt_name'')
      in case (if dataType = ''USER-DEFINED'' then udt else None) of
           Some udtName \<Rightarrow>
             (case map_of enumsByType udtName of
                Some enumVals \<Rightarrow>
                  AList.update ''enum_type'' (VStr udtName)
                    (AList.update ''enum_values'' (VStrs enumVals) column)
              | None \<Rightarrow> column)
         | None \<Rightarrow>
             (case map_of enumsByType dataType of
                Some enumVals \<Rightarrow> AList.update ''enum_values'' (VStrs enumVals) column
              | None \<Rightarrow> column))"

definition enhanceColumns :: "(string \<times> string list) list \<Rightarrow> row \<Rightarrow> row" where
  "enhanceColumns enumsByType columnsMap =
     (case assertRows (map_of columnsMap ''columns'') of
        Some columns \<Rightarrow> AList.update ''columns'' (VRows (map (enhanceColumn enumsByType) columns)) columnsMap
      | None \<Rightarrow> columnsMap)"

text \<open>
  The three supplementary facets of one table: an error becomes the empty list, a
  result of another shape leaves the variable nil.
\<close>

definition tablePrimaryKeys :: "database \<Rightarrow> string \<Rightarrow> trace \<Rightarrow> row list \<times> trace" where
  "tablePrimaryKeys db tableName tr =
     (case getPrimaryKeys db tableName tr of
        (Inl pkErr, tr') \<Rightarrow> ([], tr')
      | (Inr primaryKeysResult, tr') \<Rightarrow> (rowsOrNil (mapOrNil primaryKeysResult) ''primary_keys'', tr'))"

definition tableIndexes :: "database \<Rightarrow> string \<Rightarrow> trace \<Rightarrow> row list \<times> trace" where
  "tableIndexes db tableName tr =
     (case getIndexes db tableName tr of
        (Inl idxErr, tr') \<Rightarrow> ([], tr')
      | (Inr indexesResult, tr') \<Rightarrow> (rowsOrNil (mapOrNil indexesResult) ''indexes'', tr'))"

definition tableUniqueConstraints :: "database \<Rightarrow> string \<Rightarrow> trace \<Rightarrow> row list \<times> trace" where
  "tableUniqueConstraints db tableName tr =
     (case getUniqueConstraints db tableName tr of
        (Inl ucErr, tr') \<Rightarrow> ([], tr')
      | (Inr uniqueConstraintsResult, tr') \<Rightarrow>
          (rowsOrNil (mapOrNil uniqueConstraintsResult) ''unique_constraints'', tr'))"

text \<open>
  The rest of the loop body for a table whose columns were fetched: it yields the
  table's entry of \<^verbatim>\<open>detailedSchema\<close>.
\<close>

definition tableEntry ::
  "database \<Rightarrow> (string \<times> string list) list \<Rightarrow> (string \<times> row) list \<Rightarrow> string \<Rightarrow> val \<Rightarrow> trace
     \<Rightarrow> val \<times> trace" where
  "tableEntry db enumsByType statsByTable tableName columnsResult tr =
     (let columnsMap = enhanceColumns enumsByType (mapOrNil columnsResult)
      in case tablePrimaryKeys db tableName tr of (primaryKeys, tr1) \<Rightarrow>
         case tableIndexes db tableName tr1 of (indexes, tr2) \<Rightarrow>
         case tableUniqueConstraints db tableName tr2 of (uniqueConstraints, tr3) \<Rightarrow>
           (let tableStats = (case map_of statsByTable tableName of None \<Rightarrow> [] | Some st \<Rightarrow> st)
            in (VMap [(''columns'', index_val columnsMap ''columns''),
                      (''primary_keys'', VRows primaryKeys),
                      (''indexes'', VRows indexes),
                      (''unique_constraints'', VRows uniqueConstraints),
                      (''statistics'', VMap tableStats)], tr3)))"

text \<open>
  The loop over the table list. A row without a string \<^verbatim>\<open>table_name\<close> returns from the
  whole function; a table whose columns fetch fails is skipped (\<^verbatim>\<open>continue\<close>).
\<close>

fun tablesLoop ::
  "database \<Rightarrow> (string \<times> string list) list \<Rightarrow> (string \<times> row) list \<Rightarrow> row list \<Rightarrow> row \<Rightarrow> trace
     \<Rightarrow> (error + row) \<times> trace" where
  "tablesLoop db enumsByType statsByTable [] detailedSchema tr = (Inr detailedSchema, tr)"
| "tablesLoop db enumsByType statsByTable (tableInfo # rest) detailedSchema tr =
     (case safeGetString tableInfo ''table_name'' of
        Inl err \<Rightarrow> (Inl (Errorf ''invalid table info: '' (Some err)), tr)
      | Inr tableName \<Rightarrow>
          (case getColumns db tableName tr of
             (Inl columnsErr, tr1) \<Rightarrow> tablesLoop db enumsByType statsByTable rest detailedSchema tr1
           | (Inr columnsResult, tr1) \<Rightarrow>
               (case tableEntry db enumsByType statsByTable tableName columnsResult tr1 of
                  (entry, tr2) \<Rightarrow>
                    tablesLoop db enumsByType statsByTable rest
                      (AList.update tableName entry detailedSchema) tr2)))"

text \<open>The loop that organises the foreign keys by table (\<^verbatim>\<open>fksByTable\<close>).\<close>

fun organizeForeignKeys :: "(string \<times> row list) list \<Rightarrow> row list \<Rightarrow> (string \<times> row list) list" where
  "organizeForeignKeys fksByTable [] = fksByTable"
| "organizeForeignKeys fksByTable (fk # rest) =
     organizeForeignKeys
       (case assertString (map_of fk ''table_name'') of
          None \<Rightarrow> fksByTable
        | Some tableName \<Rightarrow>
            AList.update tableName
              ((case map_of fksByTable tableName of None \<Rightarrow> [] | Some fs \<Rightarrow> fs) @ [fk])
              fksByTable)
       rest"

text \<open>The last loop: every entry that is a map gets its \<^verbatim>\<open>foreign_keys\<close>.\<close>

definition addForeignKeys :: "(string \<times> row list) list \<Rightarrow> row \<Rightarrow> row" where
  "addForeignKeys fksByTable detailedSchema =
     map (\<lambda>(tableName, tableSchema).
            (tableName,
             case tableSchema of
               VMap schema \<Rightarrow>
                 VMap (AList.update ''foreign_keys''
                         (VRows (case map_of fksByTable tableName of None \<Rightarrow> [] | Some fs \<Rightarrow> fs)) schema)
             | _ \<Rightarrow> tableSchema))
         detailedSchema"

definition getFullSchema :: "database \<Rightarrow> trace \<Rightarrow> (error + val) \<times> trace" where
  "getFullSchema db tr =
     (case getTables db tr of
        (Inl err, tr0) \<Rightarrow> (Inl (Errorf ''failed to get tables: '' (Some err)), tr0)
      | (Inr tablesResult, tr0) \<Rightarrow>
     (case safeGetMap tablesResult of
        Inl err \<Rightarrow> (Inl (Errorf ''invalid tables result: '' (Some err)), tr0)
      | Inr tablesMap \<Rightarrow>
     (case assertRows (map_of tablesMap ''tables'') of
        None \<Rightarrow> (Inl (Errorf ''invalid tables data format'' None), tr0)
      | Some tablesSlice \<Rightarrow>
     (case getEnumValues db tr0 of (enumsRes, tr1) \<Rightarrow>
     (let enumValues = (case enumsRes of
                          Inl enumsErr \<Rightarrow> []
                        | Inr enumsResult \<Rightarrow> rowsOrNil (mapOrNil enumsResult) ''enums'');
          enumsByType = (case enumsRes of
                           Inl enumsErr \<Rightarrow> []
                         | Inr enumsResult \<Rightarrow> organizeEnums [] enumValues)
      in case getTableStats db '''' tr1 of (statsRes, tr2) \<Rightarrow>
     (let statsByTable = (case statsRes of
                            Inl statsErr \<Rightarrow> []
                          | Inr statsResult \<Rightarrow>
                              (case assertRows (map_of (mapOrNil statsResult) ''stats'') of
                                 None \<Rightarrow> []
                               | Some stats \<Rightarrow> organizeStats [] stats))
      in case tablesLoop db enumsByType statsByTable tablesSlice [] tr2 of
           (Inl err, tr3) \<Rightarrow> (Inl err, tr3)
         | (Inr detailedSchema, tr3) \<Rightarrow>
     (case getRelationships db '''' tr3 of (relRes, tr4) \<Rightarrow>
     (let foreignKeys = (case relRes of
                           Inl relErr \<Rightarrow> []
                         | Inr relationships \<Rightarrow> rowsOrNil (mapOrNil relationships) ''relationships'');
          fksByTable = organizeForeignKeys [] foreignKeys
      in (Inr (VMap [(''tables'', VRows tablesSlice),
                     (''detailed_schema'', VMap (addForeignKeys fksByTable detailedSchema)),
                     (''foreign_keys'', VRows foreignKeys),
                     (''enum_types'', VEnums enumsByType),
                     (''enum_values'', VRows enumValues)]), tr4)))))))))"

section \<open>Tool handlers\<close>

text \<open>
  Modelled from the spec: the parameter helper \<^verbatim>\<open>getStringParam\<close> is not in the source.
  The spec has \<^verbatim>\<open>component\<close> and \<^verbatim>\<open>database\<close> required and \<^verbatim>\<open>table\<close> optional, an absent
  table counting as the empty one: the helper is the type assertion
  \<^verbatim>\<open>params[key].(string)\<close>, the empty string and false when it fails.
\<close>

definition getStringParam :: "row \<Rightarrow> string \<Rightarrow> string \<times> bool" where
  "getStringParam params key =
     (case assertString (map_of params key) of None \<Rightarrow> ('''', False) | Some s \<Rightarrow> (s, True))"

text \<open>
  Modelled from the spec: \<^verbatim>\<open>getArrayParam\<close> is not in the source either; it is taken as
  the type assertion \<^verbatim>\<open>params[key].([]interface{})\<close>.
\<close>

definition getArrayParam :: "row \<Rightarrow> string \<Rightarrow> val list \<times> bool" where
  "getArrayParam params key =
     (case map_of params key of Some (VList xs) \<Rightarrow> (xs, True) | _ \<Rightarrow> ([], False))"

text \<open>The connection manager of package db, reduced to its \<^verbatim>\<open>connections\<close> map.\<close>

record Manager =
  connections :: "(string \<times> database) list"

definition GetDatabase :: "Manager \<Rightarrow> string \<Rightarrow> error + database" where
  "GetDatabase m ident =
     (case map_of (connections m) ident of
        None \<Rightarrow> Inl (Errorf (''database connection '' @ ident @ '' not found'') None)
      | Some db \<Rightarrow> Inr db)"

text \<open>
  \<^verbatim>\<open>handleSchemaExplorer\<close>; the package variable \<^verbatim>\<open>dbManager\<close> is an argument, \<open>None\<close> when
  nil. The timeout parameter only bounds the context and is left out.
\<close>

definition handleSchemaExplorer :: "Manager option \<Rightarrow> row \<Rightarrow> trace \<Rightarrow> (error + val) \<times> trace" where
  "handleSchemaExplorer dbManager params tr =
     (case dbManager of
        None \<Rightarrow> (Inl (Errorf ''database manager not initialized'' None), tr)
      | Some mgr \<Rightarrow>
     (case getStringParam params ''component'' of (component, ok) \<Rightarrow>
      if \<not> ok then (Inl (Errorf ''component parameter is required'' None), tr)
      else
     (case getStringParam params ''database'' of (databaseID, ok) \<Rightarrow>
      if \<not> ok then (Inl (Errorf ''database parameter is required'' None), tr)
      else
     (case GetDatabase mgr databaseID of
        Inl err \<Rightarrow> (Inl (Errorf ''failed to get database: '' (Some err)), tr)
      | Inr db \<Rightarrow>
     (let table = fst (getStringParam params ''table'')
      in if component = ''tables'' then getTables db tr
         else if component = ''columns'' then
           (if table = '''' then
              (Inl (Errorf ''table parameter is required for columns component'' None), tr)
            else getColumns db table tr)
         else if component = ''relationships'' then getRelationships db table tr
         else if component = ''full'' then getFullSchema db tr
         else (Inl (Errorf (''invalid component: '' @ component) None), tr))))))"

subsection \<open>The query tool\<close>

definition writeKeywords :: "string list" where
  "writeKeywords =
     [''INSERT'', ''UPDATE'', ''DELETE'', ''DROP'', ''CREATE'', ''ALTER'',
      ''TRUNCATE'', ''REPLACE'', ''MERGE'', ''GRANT'', ''REVOKE'',
      ''EXEC'', ''EXECUTE'', ''CALL'']"

definition dangerousPatterns :: "string list" where
  "dangerousPatterns =
     [''INSERT INTO'', ''UPDATE '', ''DELETE FROM'', ''DROP '', ''CREATE '',
      ''ALTER '', ''TRUNCATE '', ''INTO OUTFILE'', ''INTO DUMPFILE'']"

definition writeError :: "string \<Rightarrow> error" where
  "writeError keyword =
     Errorf (''write operations are not allowed in read-only mode: detected '' @ keyword @ '' statement'') None"

definition patternError :: "string \<Rightarrow> error" where
  "patternError pat =
     Errorf (''write operations are not allowed in read-only mode: detected ''
               @ [CHR 0x27] @ pat @ [CHR 0x27] @ '' pattern'') None"

fun checkKeywords :: "string \<Rightarrow> string list \<Rightarrow> error option" where
  "checkKeywords upperQuery [] = None"
| "checkKeywords upperQuery (keyword # rest) =
     (if HasPrefix upperQuery keyword then Some (writeError keyword)
      else if Contains upperQuery ('';'' @ keyword) \<or> Contains upperQuery (''; '' @ keyword)
        then Some (writeError keyword)
      else checkKeywords upperQuery rest)"

fun checkPatterns :: "string \<Rightarrow> string list \<Rightarrow> error option" where
  "checkPatterns upperQuery [] = None"
| "checkPatterns upperQuery (pat # rest) =
     (if Contains upperQuery pat then Some (patternError pat)
      else checkPatterns upperQuery rest)"

text \<open>
  \<^verbatim>\<open>validateReadOnlyQuery\<close>, given the two library functions it normalises the query
  with: \<open>None\<close> is the nil error.
\<close>

definition validateReadOnlyQuery ::
  "(string \<Rightarrow> string) \<Rightarrow> (string \<Rightarrow> string) \<Rightarrow> string \<Rightarrow> error option" where
  "validateReadOnlyQuery ToUpper TrimSpace q =
     (let upperQuery = ToUpper (TrimSpace q)
      in case checkKeywords upperQuery writeKeywords of
           Some err \<Rightarrow> Some err
         | None \<Rightarrow>
             (case checkPatterns upperQuery dangerousPatterns of
                Some err \<Rightarrow> Some err
              | None \<Rightarrow>
                  if Contains upperQuery '' INTO '' \<and> \<not> Contains upperQuery ''INSERT INTO''
                  then Some (Errorf (''write operations are not allowed in read-only mode: detected ''
                                       @ [CHR 0x27] @ ''INTO'' @ [CHR 0x27] @ '' clause'') None)
                  else None))"

text \<open>
  \<^verbatim>\<open>handleQuery\<close>. The performance analyzer is not in the source: \<open>track\<close> stands for
  \<^verbatim>\<open>analyzer.TrackQuery\<close>, given the query, its parameters and the closure that runs it.
  The two library functions are handed on to \<open>validateReadOnlyQuery\<close>. The timeout only
  bounds the context and is left out.
\<close>

definition runQuery :: "database \<Rightarrow> string \<Rightarrow> val list \<Rightarrow> trace \<Rightarrow> (error + val) \<times> trace" where
  "runQuery db q queryParams tr =
     (case Query db \<lparr>query = q, args = queryParams\<rparr> tr of
        (Inl innerErr, tr') \<Rightarrow> (Inl (Errorf ''failed to execute query: '' (Some innerErr)), tr')
      | (Inr rows, tr') \<Rightarrow>
          (case rowsToMaps rows of
             Inl innerErr \<Rightarrow> (Inl (Errorf ''failed to process query results: '' (Some innerErr)), tr')
           | Inr results \<Rightarrow>
               (Inr (VMap [(''results'', VRows results), (''query'', VStr q),
                           (''params'', VList queryParams),
                           (''rowCount'', VInt (int (length results)))]), tr')))"

definition handleQuery ::
  "(string \<Rightarrow> string) \<Rightarrow> (string \<Rightarrow> string)
     \<Rightarrow> (string \<Rightarrow> val list \<Rightarrow> (trace \<Rightarrow> (error + val) \<times> trace) \<Rightarrow> trace \<Rightarrow> (error + val) \<times> trace)
     \<Rightarrow> Manager option \<Rightarrow> row \<Rightarrow> trace \<Rightarrow> (error + val) \<times> trace" where
  "handleQuery ToUpper TrimSpace track dbManager params tr =
     (case dbManager of
        None \<Rightarrow> (Inl (Errorf ''database manager not initialized'' None), tr)
      | Some mgr \<Rightarrow>
     (case getStringParam params ''query'' of (q, ok) \<Rightarrow>
      if \<not> ok then (Inl (Errorf ''query parameter is required'' None), tr)
      else
     (case validateReadOnlyQuery ToUpper TrimSpace q of
        Some err \<Rightarrow> (Inl err, tr)
      | None \<Rightarrow>
     (case getStringParam params ''database'' of (databaseID, ok) \<Rightarrow>
      if \<not> ok then (Inl (Errorf ''database parameter is required'' None), tr)
      else
     (case GetDatabase mgr databaseID of
        Inl err \<Rightarrow> (Inl (Errorf ''failed to get database: '' (Some err)), tr)
      | Inr db \<Rightarrow>
          (let queryParams = fst (getArrayParam params ''params'')
           in track q queryParams (runQuery db q queryParams) tr))))))"

section \<open>Schema cache\<close>

text \<open>
  The cache with its clock made explicit: instants and durations are integers
  (nanoseconds), \<^verbatim>\<open>time.Now()\<close> is the argument \<open>now\<close> and \<^verbatim>\<open>time.Since(t)\<close> is \<open>now - t\<close>.
  Each method runs under the cache's lock, so it is one atomic step on the cache value.
  The payload is an \<^verbatim>\<open>interface{}\<close>, nil on a miss.
\<close>

record schemaCacheEntry =
  schema :: val
  timestamp :: int

record SchemaCache =
  entries :: "string \<rightharpoonup> schemaCacheEntry"
  ttl :: int

definition SchemaCache_Get :: "SchemaCache \<Rightarrow> string \<Rightarrow> int \<Rightarrow> val \<times> bool" where
  "SchemaCache_Get c dbID now =
     (case entries c dbID of
        None \<Rightarrow> (VNil, False)
      | Some entry \<Rightarrow>
          if now - timestamp entry > ttl c then (VNil, False)
          else (schema entry, True))"

definition SchemaCache_Set :: "SchemaCache \<Rightarrow> string \<Rightarrow> val \<Rightarrow> int \<Rightarrow> SchemaCache" where
  "SchemaCache_Set c dbID v now = c\<lparr>entries := (entries c)(dbID \<mapsto> \<lparr>schema = v, timestamp = now\<rparr>)\<rparr>"

section \<open>Facets, for statements about every operation of a strategy\<close>

datatype facet =
  Tables | Columns | Relationships | PrimaryKeys | Indexes | EnumValues | UniqueConstraints | TableStats

fun facetQueries :: "strategy \<Rightarrow> facet \<Rightarrow> string \<Rightarrow> queryWithArgs list" where
  "facetQueries s Tables table = GetTablesQueries s"
| "facetQueries s Columns table = GetColumnsQueries s table"
| "facetQueries s Relationships table = GetRelationshipsQueries s table"
| "facetQueries s PrimaryKeys table = GetPrimaryKeysQueries s table"
| "facetQueries s Indexes table = GetIndexesQueries s table"
| "facetQueries s EnumValues table = GetEnumValuesQueries s"
| "facetQueries s UniqueConstraints table = GetUniqueConstraintsQueries s table"
| "facetQueries s TableStats table = GetTableStatsQueries s table"

section \<open>Schema filters in a query text\<close>

text \<open>
  The two filters the specification names: a comparison of \<^verbatim>\<open>schemaname\<close> or \<^verbatim>\<open>table_schema\<close>
  with \<^verbatim>\<open>'public'\<close>, and a comparison of \<^verbatim>\<open>table_schema\<close> with \<^verbatim>\<open>DATABASE()\<close>.
\<close>

definition restricts_to_schema :: "string \<Rightarrow> bool" where
  "restricts_to_schema q =
     (Contains q (''schemaname = 'public'' @ [CHR 0x27])
      \<or> Contains q (''table_schema = 'public'' @ [CHR 0x27])
      \<or> Contains q ''table_schema = DATABASE()'')"

text \<open>
  The filters the candidates do carry: the PostgreSQL catalog queries compare \<^verbatim>\<open>nspname\<close>,
  and one MySQL candidate compares \<^verbatim>\<open>constraint_schema\<close>.
\<close>

definition names_public_schema :: "string \<Rightarrow> bool" where
  "names_public_schema q =
     (Contains q (''schemaname = 'public'' @ [CHR 0x27])
      \<or> Contains q (''table_schema = 'public'' @ [CHR 0x27])
      \<or> Contains q (''nspname = 'public'' @ [CHR 0x27]))"

definition names_current_database :: "string \<Rightarrow> bool" where
  "names_current_database q =
     (Contains q ''table_schema = DATABASE()'' \<or> Contains q ''constraint_schema = DATABASE()'')"

section \<open>Example databases\<close>

text \<open>A database on which every query fails, the error naming the query.\<close>

definition refusing_db :: database where
  "refusing_db =
     \<lparr>DriverName = ''postgres'',
      respond = (\<lambda>tr q. Inl (Errorf (''cannot run '' @ query q) None))\<rparr>"

definition three_candidates :: "queryWithArgs list" where
  "three_candidates =
     [\<lparr>query = ''Q1'', args = []\<rparr>, \<lparr>query = ''Q2'', args = []\<rparr>, \<lparr>query = ''Q3'', args = []\<rparr>]"

text \<open>A database that only understands \<^verbatim>\<open>Q2\<close>, answering it with one row.\<close>

definition q2_only_db :: database where
  "q2_only_db =
     \<lparr>DriverName = ''postgres'',
      respond = (\<lambda>tr q. if query q = ''Q2''
                          then Inr (SqlRows [[(''table_name'', VStr ''users'')]] None)
                          else Inl (Errorf (''cannot run '' @ query q) None))\<rparr>"

text \<open>A cache with the default time-to-live of five minutes, in nanoseconds.\<close>

definition five_minute_cache :: SchemaCache where
  "five_minute_cache = \<lparr>entries = Map.empty, ttl = 300000000000\<rparr>"

text \<open>A manager with one connection, to a database that answers every query with one row.\<close>

definition users_db :: database where
  "users_db =
     \<lparr>DriverName = ''postgres'',
      respond = (\<lambda>tr q. Inr (SqlRows [[(''table_name'', VStr ''users'')]] None))\<rparr>"

definition one_db_manager :: Manager where
  "one_db_manager = \<lparr>connections = [(''main'', users_db)]\<rparr>"

text \<open>
  On a string of ASCII bytes \<^verbatim>\<open>strings.ToUpper\<close> maps the letters a-z to A-Z and
  \<^verbatim>\<open>strings.TrimSpace\<close> trims the six ASCII white-space bytes. The two functions below do
  that and leave every other byte alone; they stand for the library functions in the
  example of the query tool, whose query is ASCII.
\<close>

definition upper_char :: "char \<Rightarrow> char" where
  "upper_char c =
     (if (97::nat) \<le> of_char c \<and> of_char c \<le> (122::nat) then char_of (of_char c - (32::nat)) else c)"

definition ascii_ToUpper :: "string \<Rightarrow> string" where
  "ascii_ToUpper s = map upper_char s"

definition isSpace :: "char \<Rightarrow> bool" where
  "isSpace c = (of_char c \<in> {9, 10, 11, 12, 13, 32 :: nat})"

definition ascii_TrimSpace :: "string \<Rightarrow> string" where
  "ascii_TrimSpace s = rev (dropWhile isSpace (rev (dropWhile isSpace s)))"

text \<open>A performance analyzer that just runs the closure it is given.\<close>

definition run_closure ::
  "string \<Rightarrow> val list \<Rightarrow> (trace \<Rightarrow> (error + val) \<times> trace) \<Rightarrow> trace \<Rightarrow> (error + val) \<times> trace" where
  "run_closure q queryParams fn tr = fn tr"

text \<open>
  A PostgreSQL database with the tables \<^verbatim>\<open>users\<close> and \<^verbatim>\<open>orders\<close> on which the account may
  read the table list and the columns of \<^verbatim>\<open>users\<close>, and nothing else.
\<close>

definition shop_db :: database where
  "shop_db =
     \<lparr>DriverName = ''postgres'',
      respond = (\<lambda>tr q.
        if query q = pg_tables_1 then
          Inr (SqlRows [[(''table_name'', VStr ''users'')], [(''table_name'', VStr ''orders'')]] None)
        else if query q = pg_columns_1 \<and> args q = [VStr ''users''] then
          Inr (SqlRows [[(''column_name'', VStr ''id''), (''data_type'', VStr ''integer''),
                          (''udt_name'', VStr ''int4'')]] None)
        else Inl (Errorf ''permission denied'' None))\<rparr>"

text \<open>A MySQL server on which only \<^verbatim>\<open>SHOW TABLES\<close> works.\<close>

definition show_tables_db :: database where
  "show_tables_db =
     \<lparr>DriverName = ''mysql'',
      respond = (\<lambda>tr q.
        if query q = ''SHOW TABLES'' then
          Inr (SqlRows [[(''Tables_in_shop'', VStr ''users'')]] None)
        else Inl (Errorf ''access denied'' None))\<rparr>"

text \<open>
  A PostgreSQL database with one table, \<^verbatim>\<open>orders\<close>, whose column \<^verbatim>\<open>status\<close> has the enum type
  \<^verbatim>\<open>order_status\<close>; the other facets are not readable.
\<close>

definition enum_db :: database where
  "enum_db =
     \<lparr>DriverName = ''postgres'',
      respond = (\<lambda>tr q.
        if query q = pg_tables_1 then
          Inr (SqlRows [[(''table_name'', VStr ''orders'')]] None)
        else if query q = pg_enum_values_1 then
          Inr (SqlRows [[(''enum_name'', VStr ''order_status''), (''enum_value'', VStr ''pending'')],
                        [(''enum_name'', VStr ''order_status''), (''enum_value'', VStr ''shipped'')],
                        [(''enum_name'', VStr ''order_status''), (''enum_value'', VStr ''delivered'')]] None)
        else if query q = pg_columns_1 \<and> args q = [VStr ''orders''] then
          Inr (SqlRows [[(''column_name'', VStr ''status''), (''data_type'', VStr ''USER-DEFINED''),
                         (''udt_name'', VStr ''order_status'')]] None)
        else Inl (Errorf ''permission denied'' None))\<rparr>"

section \<open>The fallback executor\<close>

lemma itoa_3: "itoa (Suc (Suc (Suc 0))) = ''3''"
  by code_simp

lemma fallbackLoop_all_fail:
  "\<forall>i<length qs. isl (respond db (tr @ take i qs) (qs ! i)) \<Longrightarrow>
   fallbackLoop db qs lastErr tr =
     (Inl (if qs = [] then lastErr else Some (projl (respond db (tr @ butlast qs) (last qs)))), tr @ qs)"
proof (induction qs arbitrary: lastErr tr)
  case Nil
  then show ?case by simp
next
  case (Cons q qs)
  from Cons.prems have q_fails: "isl (respond db tr q)"
    by fastforce
  then obtain e where e: "respond db tr q = Inl e"
    by (cases "respond db tr q") auto
  have rest: "\<forall>i<length qs. isl (respond db ((tr @ [q]) @ take i qs) (qs ! i))"
  proof (intro allI impI)
    fix i assume "i < length qs"
    with Cons.prems have "isl (respond db (tr @ take (Suc i) (q # qs)) ((q # qs) ! Suc i))"
      by (metis Suc_less_eq length_Cons)
    then show "isl (respond db ((tr @ [q]) @ take i qs) (qs ! i))" by simp
  qed
  show ?case
    using Cons.IH [OF rest, of "Some e"] e
    by (cases "qs = []") (simp_all add: Query_def)
qed

lemma fallbackLoop_first_success:
  "i < length qs \<Longrightarrow>
   \<forall>j<i. isl (respond db (tr @ take j qs) (qs ! j)) \<Longrightarrow>
   respond db (tr @ take i qs) (qs ! i) = Inr rows \<Longrightarrow>
   fallbackLoop db qs lastErr tr = (Inr rows, tr @ take (Suc i) qs)"
proof (induction qs arbitrary: i lastErr tr)
  case Nil
  then show ?case by simp
next
  case (Cons q qs)
  show ?case
  proof (cases i)
    case 0
    with Cons.prems show ?thesis by (simp add: Query_def)
  next
    case (Suc k)
    with Cons.prems have "isl (respond db tr q)" by fastforce
    then obtain e where e: "respond db tr q = Inl e"
      by (cases "respond db tr q") auto
    have k: "k < length qs" using Cons.prems Suc by simp
    have fails: "\<forall>j<k. isl (respond db ((tr @ [q]) @ take j qs) (qs ! j))"
    proof (intro allI impI)
      fix j assume "j < k"
      then have "Suc j < i" using Suc by simp
      with Cons.prems have "isl (respond db (tr @ take (Suc j) (q # qs)) ((q # qs) ! Suc j))"
        by blast
      then show "isl (respond db ((tr @ [q]) @ take j qs) (qs ! j))" by simp
    qed
    have ok: "respond db ((tr @ [q]) @ take k qs) (qs ! k) = Inr rows"
      using Cons.prems Suc by simp
    show ?thesis
      using Cons.IH [OF k fails ok, of "Some e"] e Suc by (simp add: Query_def)
  qed
qed

text \<open>
  Claim C3 (fallback exhaustion). Let \<open>queries\<close> be a non-empty list of candidates each
  of which fails when its turn comes, that is, when the candidates before it have been
  issued after the trace \<open>tr\<close>. Then \<open>executeWithFallbacks\<close> issues exactly the candidates
  of the list, in the list's order (the trace grows by \<open>queries\<close>), and returns an error
  that wraps the error of the last candidate and whose text gives the number of
  candidates, \<open>length queries\<close>, in decimal.
\<close>

theorem fallback_exhaustion:
  assumes "queries \<noteq> []"
    and "\<forall>i<length queries. isl (respond db (tr @ take i queries) (queries ! i))"
  shows "executeWithFallbacks db queries operationName tr =
           (Inl (Errorf (operationName @ '' failed after trying '' @ itoa (length queries)
                           @ '' fallback queries: '')
                   (Some (projl (respond db (tr @ butlast queries) (last queries))))),
            tr @ queries)"
  using assms fallbackLoop_all_fail [OF assms(2), of None]
  by (simp add: executeWithFallbacks_def)

theorem fallback_exhaustion_witness:
  "three_candidates \<noteq> []
   \<and> isl (respond refusing_db [] (three_candidates ! 0))
   \<and> isl (respond refusing_db (take 1 three_candidates) (three_candidates ! 1))
   \<and> isl (respond refusing_db (take 2 three_candidates) (three_candidates ! 2))
   \<and> executeWithFallbacks refusing_db three_candidates ''getTables'' [] =
       (Inl (Errorf ''getTables failed after trying 3 fallback queries: ''
               (Some (Errorf ''cannot run Q3'' None))),
        three_candidates)
   \<and> Error_text (Errorf ''getTables failed after trying 3 fallback queries: ''
                   (Some (Errorf ''cannot run Q3'' None))) =
       ''getTables failed after trying 3 fallback queries: cannot run Q3''
   \<and> Unwrap (Errorf ''getTables failed after trying 3 fallback queries: ''
               (Some (Errorf ''cannot run Q3'' None))) =
       Some (Errorf ''cannot run Q3'' None)"
proof -
  have ne: "three_candidates \<noteq> []"
    by (simp add: three_candidates_def)
  have fails: "\<forall>i<length three_candidates.
                 isl (respond refusing_db ([] @ take i three_candidates) (three_candidates ! i))"
    by (simp add: refusing_db_def)
  show ?thesis
    using fallback_exhaustion [OF ne fails, of "''getTables''"]
    by (simp add: three_candidates_def refusing_db_def itoa_3)
qed

text \<open>
  Claim C4 (fallback short-circuit). Let candidate \<open>i\<close> (counted from 0) be the first
  that succeeds: the candidates before it fail when their turn comes and candidate \<open>i\<close>
  then yields the cursor \<open>rows\<close>. Then \<open>executeWithFallbacks\<close> returns \<open>rows\<close> and has issued
  exactly the first \<open>i + 1\<close> candidates, in order; no later candidate is issued.
\<close>

theorem fallback_short_circuit:
  assumes "i < length queries"
    and "\<forall>j<i. isl (respond db (tr @ take j queries) (queries ! j))"
    and "respond db (tr @ take i queries) (queries ! i) = Inr rows"
  shows "executeWithFallbacks db queries operationName tr = (Inr rows, tr @ take (Suc i) queries)"
  using fallbackLoop_first_success [OF assms, of None]
  by (simp add: executeWithFallbacks_def)

theorem fallback_short_circuit_witness:
  "isl (respond q2_only_db [] (three_candidates ! 0))
   \<and> respond q2_only_db (take 1 three_candidates) (three_candidates ! 1) =
       Inr (SqlRows [[(''table_name'', VStr ''users'')]] None)
   \<and> executeWithFallbacks q2_only_db three_candidates ''getTables'' [] =
       (Inr (SqlRows [[(''table_name'', VStr ''users'')]] None),
        [\<lparr>query = ''Q1'', args = []\<rparr>, \<lparr>query = ''Q2'', args = []\<rparr>])"
proof -
  have i: "(1::nat) < length three_candidates"
    by (simp add: three_candidates_def)
  have fails: "\<forall>j<1. isl (respond q2_only_db ([] @ take j three_candidates) (three_candidates ! j))"
    by (simp add: three_candidates_def q2_only_db_def)
  have ok: "respond q2_only_db ([] @ take 1 three_candidates) (three_candidates ! 1) =
              Inr (SqlRows [[(''table_name'', VStr ''users'')]] None)"
    by (simp add: three_candidates_def q2_only_db_def)
  show ?thesis
    using fallback_short_circuit [OF i fails ok, of "''getTables''"]
    by (simp add: three_candidates_def q2_only_db_def)
qed

section \<open>The schema cache\<close>

text \<open>
  Claim C5 (cache TTL). A \<open>Set\<close> of \<open>v\<close> under \<open>k\<close> at the instant \<open>now\<close> followed by a \<open>Get\<close>
  of \<open>k\<close> at the same instant returns \<open>(v, True)\<close>, for a time-to-live that is not
  negative (under a negative one an entry of age zero has already exceeded it, which is
  the second half of the claim); more generally so does a \<open>Get\<close> at any instant \<open>now'\<close> at
  which the age \<open>now' - now\<close> does not exceed the time-to-live. And whenever the age of the
  entry stored for \<open>k\<close> exceeds the time-to-live, \<open>Get\<close> returns nil and found = false.
\<close>

theorem cache_ttl:
  "(0 \<le> ttl c \<longrightarrow> SchemaCache_Get (SchemaCache_Set c k v now) k now = (v, True))
   \<and> (now' - now \<le> ttl c \<longrightarrow> SchemaCache_Get (SchemaCache_Set c k v now) k now' = (v, True))
   \<and> (entries c k = Some e \<and> now' - timestamp e > ttl c \<longrightarrow> SchemaCache_Get c k now' = (VNil, False))"
  by (simp add: SchemaCache_Get_def SchemaCache_Set_def)

theorem cache_ttl_witness:
  "SchemaCache_Get (SchemaCache_Set five_minute_cache ''main'' (VStr ''doc'') 1000) ''main'' 1000
     = (VStr ''doc'', True)
   \<and> SchemaCache_Get (SchemaCache_Set five_minute_cache ''main'' (VStr ''doc'') 1000) ''main'' 300000001000
     = (VStr ''doc'', True)
   \<and> SchemaCache_Get (SchemaCache_Set five_minute_cache ''main'' (VStr ''doc'') 1000) ''main'' 300000001001
     = (VNil, False)"
  using cache_ttl [of five_minute_cache "''main''" "VStr ''doc''" 1000 300000001000
                      "\<lparr>schema = VStr ''doc'', timestamp = 1000\<rparr>"]
        cache_ttl [of "SchemaCache_Set five_minute_cache ''main'' (VStr ''doc'') 1000" "''main''" "VStr ''doc''"
                      1000 300000001001 "\<lparr>schema = VStr ''doc'', timestamp = 1000\<rparr>"]
  by (simp add: five_minute_cache_def SchemaCache_Set_def)

section \<open>The tool handlers\<close>

text \<open>
  Claim C7 (required-table enforcement). When the \<^verbatim>\<open>component\<close> parameter is \<^verbatim>\<open>columns\<close> and
  the \<^verbatim>\<open>table\<close> parameter is empty or absent, \<open>handleSchemaExplorer\<close> returns an error and
  leaves the trace as it was: no query is issued. When the manager is initialised and
  the \<^verbatim>\<open>database\<close> parameter names one of its connections, that error is the explicit
  "table parameter is required for columns component".
\<close>

theorem required_table:
  assumes "getStringParam params ''component'' = (''columns'', True)"
    and "fst (getStringParam params ''table'') = ''''"
  shows "(\<exists>e. handleSchemaExplorer dbManager params tr = (Inl e, tr))
         \<and> (\<forall>mgr db. dbManager = Some mgr
                \<and> snd (getStringParam params ''database'')
                \<and> GetDatabase mgr (fst (getStringParam params ''database'')) = Inr db
              \<longrightarrow> handleSchemaExplorer dbManager params tr =
                    (Inl (Errorf ''table parameter is required for columns component'' None), tr))"
  using assms
  by (auto simp add: handleSchemaExplorer_def split: option.splits sum.splits prod.splits)

theorem required_table_witness:
  "getStringParam [(''component'', VStr ''columns''), (''database'', VStr ''main'')] ''component''
     = (''columns'', True)
   \<and> getStringParam [(''component'', VStr ''columns''), (''database'', VStr ''main'')] ''table''
     = ('''', False)
   \<and> handleSchemaExplorer (Some one_db_manager)
        [(''component'', VStr ''columns''), (''database'', VStr ''main'')] [] =
       (Inl (Errorf ''table parameter is required for columns component'' None), [])"
proof -
  let ?params = "[(''component'', VStr ''columns''), (''database'', VStr ''main'')]"
  have c: "getStringParam ?params ''component'' = (''columns'', True)"
    by (simp add: getStringParam_def)
  have t: "getStringParam ?params ''table'' = ('''', False)"
    by (simp add: getStringParam_def)
  have t': "fst (getStringParam ?params ''table'') = ''''"
    by (simp add: t)
  have d: "getStringParam ?params ''database'' = (''main'', True)"
    by (simp add: getStringParam_def)
  have g: "GetDatabase one_db_manager ''main'' = Inr users_db"
    by (simp add: GetDatabase_def one_db_manager_def)
  from required_table [OF c t', of "Some one_db_manager" "[]"] d g c t
  show ?thesis by simp
qed

lemma checkKeywords_prefix:
  "keyword \<in> set kws \<Longrightarrow> HasPrefix upperQuery keyword \<Longrightarrow> checkKeywords upperQuery kws \<noteq> None"
  by (induction kws) auto

text \<open>
  Claim C8 (read-only enforcement). Let \<open>q\<close> be the \<^verbatim>\<open>query\<close> parameter of a call of the
  query tool, and let its trimmed, upper-cased text, as \<^verbatim>\<open>strings.TrimSpace\<close> and
  \<^verbatim>\<open>strings.ToUpper\<close> compute it (whatever they compute: both are arbitrary here), begin
  with one of the fourteen write or DDL keywords. Then \<open>validateReadOnlyQuery\<close> rejects
  \<open>q\<close>, and \<open>handleQuery\<close> returns an error with the trace unchanged, whatever the manager,
  the other parameters and the performance analyzer are: the query is never sent to a
  database.
\<close>

theorem read_only_enforced:
  assumes "getStringParam params ''query'' = (q, True)"
    and "keyword \<in> set [''INSERT'', ''UPDATE'', ''DELETE'', ''DROP'', ''CREATE'', ''ALTER'',
                          ''TRUNCATE'', ''REPLACE'', ''MERGE'', ''GRANT'', ''REVOKE'',
                          ''EXEC'', ''EXECUTE'', ''CALL'']"
    and "HasPrefix (ToUpper (TrimSpace q)) keyword"
  shows "validateReadOnlyQuery ToUpper TrimSpace q \<noteq> None
         \<and> (\<exists>e. handleQuery ToUpper TrimSpace track dbManager params tr = (Inl e, tr))"
proof -
  from assms(2) have "keyword \<in> set writeKeywords"
    by (simp add: writeKeywords_def)
  from checkKeywords_prefix [OF this assms(3)]
  obtain err where "checkKeywords (ToUpper (TrimSpace q)) writeKeywords = Some err"
    by auto
  then have v: "validateReadOnlyQuery ToUpper TrimSpace q = Some err"
    by (simp add: validateReadOnlyQuery_def)
  then show ?thesis
    using assms(1) by (simp add: handleQuery_def split: option.splits)
qed

theorem read_only_enforced_witness:
  "getStringParam [(''query'', VStr ''  drop table users; ''), (''database'', VStr ''main'')] ''query''
     = (''  drop table users; '', True)
   \<and> ascii_ToUpper (ascii_TrimSpace ''  drop table users; '') = ''DROP TABLE USERS;''
   \<and> validateReadOnlyQuery ascii_ToUpper ascii_TrimSpace ''  drop table users; '' \<noteq> None
   \<and> (\<exists>e. handleQuery ascii_ToUpper ascii_TrimSpace run_closure (Some one_db_manager)
             [(''query'', VStr ''  drop table users; ''), (''database'', VStr ''main'')] [] = (Inl e, []))"
proof -
  let ?params = "[(''query'', VStr ''  drop table users; ''), (''database'', VStr ''main'')]"
  have p: "getStringParam ?params ''query'' = (''  drop table users; '', True)"
    by (simp add: getStringParam_def)
  have k: "''DROP'' \<in> set [''INSERT'', ''UPDATE'', ''DELETE'', ''DROP'', ''CREATE'', ''ALTER'',
                            ''TRUNCATE'', ''REPLACE'', ''MERGE'', ''GRANT'', ''REVOKE'',
                            ''EXEC'', ''EXECUTE'', ''CALL'']"
    by simp
  have u: "ascii_ToUpper (ascii_TrimSpace ''  drop table users; '') = ''DROP TABLE USERS;''"
    by code_simp
  have h: "HasPrefix (ascii_ToUpper (ascii_TrimSpace ''  drop table users; '')) ''DROP''"
    by (simp add: u)
  from read_only_enforced
         [where ToUpper = ascii_ToUpper and TrimSpace = ascii_TrimSpace and track = run_closure
            and dbManager = "Some one_db_manager" and tr = "[]", OF p k h] p u
  show ?thesis by simp
qed

section \<open>Full-schema assembly\<close>

subsection \<open>Tolerant facets\<close>

lemma executeWithFallbacks_fails:
  assumes "\<forall>tr' q. q \<in> set qs \<longrightarrow> isl (respond db tr' q)"
  shows "isl (fst (executeWithFallbacks db qs operationName tr))"
proof -
  have "\<forall>i<length qs. isl (respond db (tr @ take i qs) (qs ! i))"
    using assms by simp
  from fallbackLoop_all_fail [OF this, of None]
  show ?thesis by (simp add: executeWithFallbacks_def)
qed

lemma getEnumValues_tolerant:
  assumes "\<forall>tr' q. q \<in> set (GetEnumValuesQueries (NewDatabaseStrategy (DriverName db)))
             \<longrightarrow> isl (respond db tr' q)"
  shows "fst (getEnumValues db tr) = Inr (VMap [(''enums'', VRows []), (''dbType'', VStr (DriverName db))])"
  using executeWithFallbacks_fails [OF assms, of "''getEnumValues''" tr]
  by (auto simp add: getEnumValues_def Let_def split: prod.splits sum.splits)

lemma getTableStats_tolerant:
  assumes "\<forall>tr' q. q \<in> set (GetTableStatsQueries (NewDatabaseStrategy (DriverName db)) table)
             \<longrightarrow> isl (respond db tr' q)"
  shows "fst (getTableStats db table tr) =
           Inr (VMap [(''stats'', VRows []), (''dbType'', VStr (DriverName db)), (''table'', VStr table)])"
  using executeWithFallbacks_fails [OF assms, of "''getTableStats''" tr]
  by (auto simp add: getTableStats_def Let_def split: prod.splits sum.splits)

subsection \<open>The shape of getFullSchema once the table list is there\<close>

text \<open>
  After a successful \<open>getTables\<close> the function fetches the enum catalog \<open>E\<close> and the
  statistics index \<open>S\<close>, neither of which can fail the call, and runs the loop over the
  table list; its result is the loop's error, or the document built from the loop's
  \<^verbatim>\<open>detailedSchema\<close>.
\<close>

lemma getFullSchema_decomp:
  assumes "getTables db tr = (Inr (VMap [(''tables'', VRows rows), (''dbType'', VStr d)]), tr0)"
    and "E = (case fst (getEnumValues db tr0) of
                Inl enumsErr \<Rightarrow> []
              | Inr r \<Rightarrow> organizeEnums [] (rowsOrNil (mapOrNil r) ''enums''))"
    and "S = (case fst (getTableStats db '''' (snd (getEnumValues db tr0))) of
                Inl statsErr \<Rightarrow> []
              | Inr r \<Rightarrow> (case assertRows (map_of (mapOrNil r) ''stats'') of
                           None \<Rightarrow> []
                         | Some st \<Rightarrow> organizeStats [] st))"
    and "tr2 = snd (getTableStats db '''' (snd (getEnumValues db tr0)))"
  shows "case tablesLoop db E S rows [] tr2 of
           (Inl e, tr3) \<Rightarrow> getFullSchema db tr = (Inl e, tr3)
         | (Inr ds, tr3) \<Rightarrow>
             (\<exists>ev F fk tr4. getFullSchema db tr =
                (Inr (VMap [(''tables'', VRows rows),
                            (''detailed_schema'', VMap (addForeignKeys F ds)),
                            (''foreign_keys'', VRows fk),
                            (''enum_types'', VEnums E),
                            (''enum_values'', VRows ev)]), tr4))"
  using assms
  by (cases "getEnumValues db tr0"; cases "getTableStats db '''' (snd (getEnumValues db tr0))")
     (auto simp add: getFullSchema_def safeGetMap_def Let_def split: prod.splits sum.splits)

subsection \<open>The loop over the table list\<close>

lemma tablesLoop_bad_row:
  "r \<in> set rows \<Longrightarrow> isl (safeGetString r ''table_name'') \<Longrightarrow>
   \<exists>e tr'. tablesLoop db E S rows ds tr = (Inl (Errorf ''invalid table info: '' (Some e)), tr')"
proof (induction rows arbitrary: ds tr)
  case Nil
  then show ?case by simp
next
  case (Cons tableInfo rest)
  show ?case
  proof (cases "safeGetString tableInfo ''table_name''")
    case (Inl err)
    then show ?thesis by simp
  next
    case (Inr tableName)
    with Cons.prems have r: "r \<in> set rest" by auto
    obtain res tr1 where c: "getColumns db tableName tr = (res, tr1)"
      by (cases "getColumns db tableName tr")
    show ?thesis
    proof (cases res)
      case (Inl columnsErr)
      with Cons.IH [OF r Cons.prems(2), of ds tr1] Inr c show ?thesis by simp
    next
      case cr: (Inr columnsResult)
      obtain entry tr2 where t: "tableEntry db E S tableName columnsResult tr1 = (entry, tr2)"
        by (cases "tableEntry db E S tableName columnsResult tr1")
      with Cons.IH [OF r Cons.prems(2), of "AList.update tableName entry ds" tr2] Inr c cr
      show ?thesis by simp
    qed
  qed
qed

lemma tablesLoop_named:
  "\<forall>r\<in>set rows. \<not> isl (safeGetString r ''table_name'') \<Longrightarrow>
   \<exists>ds' tr'. tablesLoop db E S rows ds tr = (Inr ds', tr')"
proof (induction rows arbitrary: ds tr)
  case Nil
  then show ?case by simp
next
  case (Cons tableInfo rest)
  then obtain tableName where n: "safeGetString tableInfo ''table_name'' = Inr tableName"
    by (cases "safeGetString tableInfo ''table_name''") auto
  from Cons.prems have rest: "\<forall>r\<in>set rest. \<not> isl (safeGetString r ''table_name'')" by simp
  obtain res tr1 where c: "getColumns db tableName tr = (res, tr1)"
    by (cases "getColumns db tableName tr")
  show ?case
  proof (cases res)
    case (Inl columnsErr)
    with Cons.IH [OF rest, of ds tr1] n c show ?thesis by simp
  next
    case cr: (Inr columnsResult)
    obtain entry tr2 where t: "tableEntry db E S tableName columnsResult tr1 = (entry, tr2)"
      by (cases "tableEntry db E S tableName columnsResult tr1")
    with Cons.IH [OF rest, of "AList.update tableName entry ds" tr2] n c cr
    show ?thesis by simp
  qed
qed

lemma tablesLoop_invariant:
  assumes "tablesLoop db E S rows ds tr = (Inr ds', tr')"
    and "\<And>t v. map_of ds t = Some v \<Longrightarrow> Q t v"
    and "\<And>t tr0 cr tr1 v tr2. getColumns db t tr0 = (Inr cr, tr1) \<Longrightarrow>
            tableEntry db E S t cr tr1 = (v, tr2) \<Longrightarrow> Q t v"
    and "map_of ds' t = Some v"
  shows "Q t v"
  using assms(1,2,4)
proof (induction rows arbitrary: ds tr)
  case Nil
  then show ?case by simp
next
  case (Cons tableInfo rest)
  from Cons.prems(1) obtain tableName where n: "safeGetString tableInfo ''table_name'' = Inr tableName"
    by (cases "safeGetString tableInfo ''table_name''") auto
  obtain res tr1 where c: "getColumns db tableName tr = (res, tr1)"
    by (cases "getColumns db tableName tr")
  show ?case
  proof (cases res)
    case (Inl columnsErr)
    with Cons.prems(1) n c have "tablesLoop db E S rest ds tr1 = (Inr ds', tr')" by simp
    from Cons.IH [OF this Cons.prems(2) Cons.prems(3)] show ?thesis by blast
  next
    case cr: (Inr columnsResult)
    obtain entry tr2 where t: "tableEntry db E S tableName columnsResult tr1 = (entry, tr2)"
      by (cases "tableEntry db E S tableName columnsResult tr1")
    with Cons.prems(1) n c cr
    have loop: "tablesLoop db E S rest (AList.update tableName entry ds) tr2 = (Inr ds', tr')"
      by simp
    have new: "Q tableName entry"
      using assms(3) c cr t by blast
    have inv: "\<And>t v. map_of (AList.update tableName entry ds) t = Some v \<Longrightarrow> Q t v"
      using new Cons.prems(2) by (auto simp add: update_conv' split: if_splits)
    from Cons.IH [OF loop inv Cons.prems(3)] show ?thesis by blast
  qed
qed

lemma tablesLoop_keeps_fetched:
  assumes "tablesLoop db E S rows ds tr = (Inr ds', tr')"
    and "\<forall>tr0. \<not> isl (fst (getColumns db U tr0))"
    and "map_of ds U \<noteq> None \<or> (\<exists>r\<in>set rows. safeGetString r ''table_name'' = Inr U)"
  shows "map_of ds' U \<noteq> None"
  using assms(1,3)
proof (induction rows arbitrary: ds tr)
  case Nil
  then show ?case by simp
next
  case (Cons tableInfo rest)
  from Cons.prems(1) obtain tableName where n: "safeGetString tableInfo ''table_name'' = Inr tableName"
    by (cases "safeGetString tableInfo ''table_name''") auto
  obtain res tr1 where c: "getColumns db tableName tr = (res, tr1)"
    by (cases "getColumns db tableName tr")
  show ?case
  proof (cases res)
    case (Inl columnsErr)
    with c assms(2) have neq: "tableName \<noteq> U"
      by (metis fst_conv sum.disc(1))
    from Inl Cons.prems(1) n c have loop: "tablesLoop db E S rest ds tr1 = (Inr ds', tr')" by simp
    have "map_of ds U \<noteq> None \<or> (\<exists>r\<in>set rest. safeGetString r ''table_name'' = Inr U)"
      using Cons.prems(2) n neq by auto
    from Cons.IH [OF loop this] show ?thesis .
  next
    case cr: (Inr columnsResult)
    obtain entry tr2 where t: "tableEntry db E S tableName columnsResult tr1 = (entry, tr2)"
      by (cases "tableEntry db E S tableName columnsResult tr1")
    with Cons.prems(1) n c cr
    have loop: "tablesLoop db E S rest (AList.update tableName entry ds) tr2 = (Inr ds', tr')"
      by simp
    have "map_of (AList.update tableName entry ds) U \<noteq> None
            \<or> (\<exists>r\<in>set rest. safeGetString r ''table_name'' = Inr U)"
      using Cons.prems(2) n by (auto simp add: update_conv')
    from Cons.IH [OF loop this] show ?thesis .
  qed
qed

lemma map_of_addForeignKeys:
  "map_of (addForeignKeys F ds) t =
     map_option (\<lambda>tableSchema. case tableSchema of
                    VMap sch \<Rightarrow>
                      VMap (AList.update ''foreign_keys''
                              (VRows (case map_of F t of None \<Rightarrow> [] | Some fs \<Rightarrow> fs)) sch)
                  | _ \<Rightarrow> tableSchema)
       (map_of ds t)"
  unfolding addForeignKeys_def by (induction ds) (auto simp add: case_prod_beta)

lemma safeGetString_isl:
  "isl (safeGetString m key) = (assertString (map_of m key) = None)"
  by (auto simp add: safeGetString_def split: option.splits)

lemma safeGetString_Inr:
  "(safeGetString m key = Inr s) = (assertString (map_of m key) = Some s)"
  by (auto simp add: safeGetString_def split: option.splits)

subsection \<open>A row without a table name\<close>

text \<open>
  Claim C10 (implicit). If the tables facet succeeds with the row list \<open>rows\<close> and some
  row \<open>r\<close> of it has no string-valued \<^verbatim>\<open>table_name\<close> key (the key is missing, or its value
  is not a string), then \<open>getFullSchema\<close> returns the error "invalid table info: ..." for
  the whole call: the row is not skipped and no document is returned.
\<close>

theorem missing_table_name_aborts:
  assumes "getTables db tr = (Inr (VMap [(''tables'', VRows rows), (''dbType'', VStr d)]), tr0)"
    and "r \<in> set rows"
    and "assertString (map_of r ''table_name'') = None"
  shows "\<exists>e tr'. getFullSchema db tr = (Inl (Errorf ''invalid table info: '' (Some e)), tr')"
proof -
  from assms(3) have bad: "isl (safeGetString r ''table_name'')"
    by (simp add: safeGetString_isl)
  define E where "E = (case fst (getEnumValues db tr0) of
                Inl enumsErr \<Rightarrow> []
              | Inr r \<Rightarrow> organizeEnums [] (rowsOrNil (mapOrNil r) ''enums''))"
  define S where "S = (case fst (getTableStats db '''' (snd (getEnumValues db tr0))) of
                Inl statsErr \<Rightarrow> []
              | Inr r \<Rightarrow> (case assertRows (map_of (mapOrNil r) ''stats'') of
                           None \<Rightarrow> []
                         | Some st \<Rightarrow> organizeStats [] st))"
  define tr2 where "tr2 = snd (getTableStats db '''' (snd (getEnumValues db tr0)))"
  from tablesLoop_bad_row [OF assms(2) bad, of db E S "[]" tr2]
  obtain e tr3 where "tablesLoop db E S rows [] tr2 = (Inl (Errorf ''invalid table info: '' (Some e)), tr3)"
    by blast
  with getFullSchema_decomp [OF assms(1) E_def S_def tr2_def]
  show ?thesis by simp
qed

lemma show_tables_db_getTables:
  "getTables show_tables_db [] =
     (Inr (VMap [(''tables'', VRows [[(''Tables_in_shop'', VStr ''users'')]]), (''dbType'', VStr ''mysql'')]),
      [\<lparr>query = mysql_tables_1, args = []\<rparr>, \<lparr>query = mysql_tables_2, args = []\<rparr>])"
  by (simp add: getTables_def show_tables_db_def NewDatabaseStrategy_def executeWithFallbacks_def
        Query_def mysql_tables_1_def mysql_tables_2_def)

text \<open>
  The MySQL fallback \<^verbatim>\<open>SHOW TABLES\<close> names its result column after the database
  (\<^verbatim>\<open>Tables_in_shop\<close>): on a server where the information_schema candidate fails, the
  rows have no \<^verbatim>\<open>table_name\<close> and the call fails.
\<close>

theorem missing_table_name_aborts_witness:
  "getTables show_tables_db [] =
     (Inr (VMap [(''tables'', VRows [[(''Tables_in_shop'', VStr ''users'')]]), (''dbType'', VStr ''mysql'')]),
      [\<lparr>query = mysql_tables_1, args = []\<rparr>, \<lparr>query = mysql_tables_2, args = []\<rparr>])
   \<and> assertString (map_of [(''Tables_in_shop'', VStr ''users'')] ''table_name'') = None
   \<and> (\<exists>e tr'. getFullSchema show_tables_db [] = (Inl (Errorf ''invalid table info: '' (Some e)), tr'))"
proof -
  have r: "[(''Tables_in_shop'', VStr ''users'')] \<in> set [[(''Tables_in_shop'', VStr ''users'')]]"
    by simp
  have n: "assertString (map_of [(''Tables_in_shop'', VStr ''users'')] ''table_name'') = None"
    by simp
  from missing_table_name_aborts [OF show_tables_db_getTables r n] show_tables_db_getTables n
  show ?thesis by simp
qed

subsection \<open>Per-table failure isolation\<close>

text \<open>
  Claim C1 (per-table failure isolation). Let the tables facet return the row list
  \<open>rows\<close>, every row naming its table, with a row for table \<open>T\<close> and a row for table \<open>U\<close>.
  If the columns fetch fails for \<open>T\<close> and succeeds for \<open>U\<close>, whenever it is attempted, then
  \<open>getFullSchema\<close> returns a document (not an error) whose \<^verbatim>\<open>tables\<close> entry is the whole list
  \<open>rows\<close>, so it holds both tables, and whose \<^verbatim>\<open>detailed_schema\<close> has an entry for \<open>U\<close> and none
  for \<open>T\<close>.
\<close>

theorem per_table_isolation:
  assumes "getTables db tr = (Inr (VMap [(''tables'', VRows rows), (''dbType'', VStr d)]), tr0)"
    and "\<forall>r\<in>set rows. assertString (map_of r ''table_name'') \<noteq> None"
    and "rT \<in> set rows" and "assertString (map_of rT ''table_name'') = Some T"
    and "rU \<in> set rows" and "assertString (map_of rU ''table_name'') = Some U"
    and "\<forall>tr1. isl (fst (getColumns db T tr1))"
    and "\<forall>tr1. \<not> isl (fst (getColumns db U tr1))"
  shows "\<exists>doc ds tr'. getFullSchema db tr = (Inr (VMap doc), tr')
           \<and> map_of doc ''tables'' = Some (VRows rows)
           \<and> map_of doc ''detailed_schema'' = Some (VMap ds)
           \<and> map_of ds U \<noteq> None
           \<and> map_of ds T = None"
proof -
  define E where "E = (case fst (getEnumValues db tr0) of
                Inl enumsErr \<Rightarrow> []
              | Inr r \<Rightarrow> organizeEnums [] (rowsOrNil (mapOrNil r) ''enums''))"
  define S where "S = (case fst (getTableStats db '''' (snd (getEnumValues db tr0))) of
                Inl statsErr \<Rightarrow> []
              | Inr r \<Rightarrow> (case assertRows (map_of (mapOrNil r) ''stats'') of
                           None \<Rightarrow> []
                         | Some st \<Rightarrow> organizeStats [] st))"
  define tr2 where "tr2 = snd (getTableStats db '''' (snd (getEnumValues db tr0)))"
  from assms(2) have named: "\<forall>r\<in>set rows. \<not> isl (safeGetString r ''table_name'')"
    by (simp add: safeGetString_isl)
  from tablesLoop_named [OF named, of db E S "[]" tr2]
  obtain ds0 tr3 where loop: "tablesLoop db E S rows [] tr2 = (Inr ds0, tr3)"
    by blast
  with getFullSchema_decomp [OF assms(1) E_def S_def tr2_def]
  obtain ev F fk tr4 where full: "getFullSchema db tr =
      (Inr (VMap [(''tables'', VRows rows),
                  (''detailed_schema'', VMap (addForeignKeys F ds0)),
                  (''foreign_keys'', VRows fk),
                  (''enum_types'', VEnums E),
                  (''enum_values'', VRows ev)]), tr4)"
    by auto
  have "\<exists>r\<in>set rows. safeGetString r ''table_name'' = Inr U"
    using assms(5,6) by (auto simp add: safeGetString_Inr)
  then have U: "map_of ds0 U \<noteq> None"
    using tablesLoop_keeps_fetched [OF loop assms(8)] by blast
  have T: "map_of ds0 T = None"
  proof (rule ccontr)
    assume "map_of ds0 T \<noteq> None"
    then obtain v where v: "map_of ds0 T = Some v" by blast
    have "T \<noteq> T"
    proof (rule tablesLoop_invariant [OF loop _ _ v, where Q = "\<lambda>t v. t \<noteq> T"])
      fix t :: string and v :: val
      assume "map_of [] t = Some v"
      then show "t \<noteq> T" by simp
    next
      fix t :: string and tr0 cr tr1
      assume "getColumns db t tr0 = (Inr cr, tr1)"
      with assms(7) show "t \<noteq> T"
        by (metis fst_conv sum.disc(2))
    qed
    then show False by simp
  qed
  show ?thesis
    using full U T by (simp add: map_of_addForeignKeys)
qed


lemma pg_texts_distinct:
  "pg_columns_1 \<noteq> pg_tables_1"
  "pg_columns_2 \<noteq> pg_tables_1"
  "pg_columns_2 \<noteq> pg_columns_1"
  "pg_enum_values_1 \<noteq> pg_tables_1"
  "pg_enum_values_1 \<noteq> pg_columns_1"
  "pg_stats_all \<noteq> pg_tables_1"
  "pg_stats_all \<noteq> pg_columns_1"
  unfolding pg_tables_1_def pg_columns_1_def pg_columns_2_def pg_enum_values_1_def pg_stats_all_def
    sql_lines_def
  by simp_all

lemma shop_db_getTables:
  "getTables shop_db [] =
     (Inr (VMap [(''tables'', VRows [[(''table_name'', VStr ''users'')], [(''table_name'', VStr ''orders'')]]),
                 (''dbType'', VStr ''postgres'')]),
      [\<lparr>query = pg_tables_1, args = []\<rparr>])"
  by (simp add: getTables_def shop_db_def NewDatabaseStrategy_def executeWithFallbacks_def Query_def)

lemma shop_db_orders: "isl (fst (getColumns shop_db ''orders'' tr1))"
  by (simp add: getColumns_def shop_db_def NewDatabaseStrategy_def executeWithFallbacks_def Query_def
        pg_texts_distinct)

lemma shop_db_users: "\<not> isl (fst (getColumns shop_db ''users'' tr1))"
  by (simp add: getColumns_def shop_db_def NewDatabaseStrategy_def executeWithFallbacks_def Query_def
        pg_texts_distinct)

theorem per_table_isolation_witness:
  "getTables shop_db [] =
     (Inr (VMap [(''tables'', VRows [[(''table_name'', VStr ''users'')], [(''table_name'', VStr ''orders'')]]),
                 (''dbType'', VStr ''postgres'')]),
      [\<lparr>query = pg_tables_1, args = []\<rparr>])
   \<and> (\<forall>tr1. isl (fst (getColumns shop_db ''orders'' tr1)))
   \<and> (\<forall>tr1. \<not> isl (fst (getColumns shop_db ''users'' tr1)))
   \<and> (\<exists>doc ds tr'. getFullSchema shop_db [] = (Inr (VMap doc), tr')
         \<and> map_of doc ''tables'' =
             Some (VRows [[(''table_name'', VStr ''users'')], [(''table_name'', VStr ''orders'')]])
         \<and> map_of doc ''detailed_schema'' = Some (VMap ds)
         \<and> map_of ds ''users'' \<noteq> None
         \<and> map_of ds ''orders'' = None)"
proof -
  let ?rows = "[[(''table_name'', VStr ''users'')], [(''table_name'', VStr ''orders'')]]"
  have named: "\<forall>r\<in>set ?rows. assertString (map_of r ''table_name'') \<noteq> None"
    by simp
  have rT: "[(''table_name'', VStr ''orders'')] \<in> set ?rows" by simp
  have nT: "assertString (map_of [(''table_name'', VStr ''orders'')] ''table_name'') = Some ''orders''"
    by simp
  have rU: "[(''table_name'', VStr ''users'')] \<in> set ?rows" by simp
  have nU: "assertString (map_of [(''table_name'', VStr ''users'')] ''table_name'') = Some ''users''"
    by simp
  have fT: "\<forall>tr1. isl (fst (getColumns shop_db ''orders'' tr1))"
    by (simp add: shop_db_orders)
  have fU: "\<forall>tr1. \<not> isl (fst (getColumns shop_db ''users'' tr1))"
    by (simp add: shop_db_users)
  from per_table_isolation [OF shop_db_getTables named rT nT rU nU fT fU] shop_db_getTables fT fU
  show ?thesis by blast
qed

subsection \<open>Enum values and statistics that cannot be fetched\<close>

lemma tableEntry_statistics:
  "tableEntry db E [] t cr tr = (v, tr') \<Longrightarrow>
   \<exists>e. v = VMap e \<and> map_of e ''statistics'' = Some (VMap [])"
  by (auto simp add: tableEntry_def Let_def split: prod.splits)

lemma pg_texts_distinct_more:
  "pg_stats_all \<noteq> pg_enum_values_1"
  "pg_columns_1 \<noteq> pg_enum_values_1"
  "pg_primary_keys_table \<noteq> pg_tables_1"
  "pg_primary_keys_table \<noteq> pg_enum_values_1"
  "pg_primary_keys_table \<noteq> pg_columns_1"
  "pg_indexes_table \<noteq> pg_tables_1"
  "pg_indexes_table \<noteq> pg_enum_values_1"
  "pg_indexes_table \<noteq> pg_columns_1"
  "pg_unique_table \<noteq> pg_tables_1"
  "pg_unique_table \<noteq> pg_enum_values_1"
  "pg_unique_table \<noteq> pg_columns_1"
  "pg_relationships_1 \<noteq> pg_tables_1"
  "pg_relationships_1 \<noteq> pg_enum_values_1"
  "pg_relationships_1 \<noteq> pg_columns_1"
  "pg_relationships_2 \<noteq> pg_tables_1"
  "pg_relationships_2 \<noteq> pg_enum_values_1"
  "pg_relationships_2 \<noteq> pg_columns_1"
  unfolding pg_tables_1_def pg_columns_1_def pg_enum_values_1_def pg_stats_all_def
    pg_primary_keys_table_def pg_indexes_table_def pg_unique_table_def
    pg_relationships_1_def pg_relationships_2_def sql_lines_def
  by simp_all

text \<open>
  Claim C2 (tolerant facets never abort the call). Let the mandatory table list be
  there: the tables facet returns \<open>rows\<close>, every row naming its table. If every candidate
  of the enum-values facet and every candidate of the table-statistics facet (the
  all-tables form that \<open>getFullSchema\<close> asks for) fails whenever it is issued, then
  \<open>getFullSchema\<close> still returns a document, not an error. Its \<^verbatim>\<open>tables\<close> is the list \<open>rows\<close>
  and its \<^verbatim>\<open>enum_types\<close> is the empty mapping. Every table of the list whose columns can
  be fetched has an entry in \<^verbatim>\<open>detailed_schema\<close>, and the \<^verbatim>\<open>statistics\<close> of that entry, as of
  every entry of \<^verbatim>\<open>detailed_schema\<close>, is the empty record.
\<close>

theorem tolerant_facets:
  assumes "getTables db tr = (Inr (VMap [(''tables'', VRows rows), (''dbType'', VStr d)]), tr0)"
    and "\<forall>r\<in>set rows. assertString (map_of r ''table_name'') \<noteq> None"
    and "\<forall>tr1 q. q \<in> set (GetEnumValuesQueries (NewDatabaseStrategy (DriverName db)))
            \<longrightarrow> isl (respond db tr1 q)"
    and "\<forall>tr1 q. q \<in> set (GetTableStatsQueries (NewDatabaseStrategy (DriverName db)) '''')
            \<longrightarrow> isl (respond db tr1 q)"
  shows "\<exists>doc ds tr'. getFullSchema db tr = (Inr (VMap doc), tr')
           \<and> map_of doc ''tables'' = Some (VRows rows)
           \<and> map_of doc ''enum_types'' = Some (VEnums [])
           \<and> map_of doc ''detailed_schema'' = Some (VMap ds)
           \<and> (\<forall>r\<in>set rows. \<forall>U.
                 assertString (map_of r ''table_name'') = Some U
                   \<and> (\<forall>tr1. \<not> isl (fst (getColumns db U tr1)))
                 \<longrightarrow> (\<exists>e. map_of ds U = Some (VMap e) \<and> map_of e ''statistics'' = Some (VMap [])))
           \<and> (\<forall>t entry. map_of ds t = Some entry
                 \<longrightarrow> (\<exists>e. entry = VMap e \<and> map_of e ''statistics'' = Some (VMap [])))"
proof -
  define E where "E = (case fst (getEnumValues db tr0) of
                Inl enumsErr \<Rightarrow> []
              | Inr r \<Rightarrow> organizeEnums [] (rowsOrNil (mapOrNil r) ''enums''))"
  define S where "S = (case fst (getTableStats db '''' (snd (getEnumValues db tr0))) of
                Inl statsErr \<Rightarrow> []
              | Inr r \<Rightarrow> (case assertRows (map_of (mapOrNil r) ''stats'') of
                           None \<Rightarrow> []
                         | Some st \<Rightarrow> organizeStats [] st))"
  define tr2 where "tr2 = snd (getTableStats db '''' (snd (getEnumValues db tr0)))"
  have E: "E = []"
    unfolding E_def
    by (simp add: getEnumValues_tolerant [OF assms(3)] mapOrNil_def safeGetMap_def rowsOrNil_def)
  have S: "S = []"
    unfolding S_def
    by (simp add: getTableStats_tolerant [OF assms(4)] mapOrNil_def safeGetMap_def)
  from assms(2) have named: "\<forall>r\<in>set rows. \<not> isl (safeGetString r ''table_name'')"
    by (simp add: safeGetString_isl)
  from tablesLoop_named [OF named, of db E S "[]" tr2]
  obtain ds0 tr3 where loop: "tablesLoop db E S rows [] tr2 = (Inr ds0, tr3)"
    by blast
  with getFullSchema_decomp [OF assms(1) E_def S_def tr2_def]
  obtain ev F fk tr4 where full: "getFullSchema db tr =
      (Inr (VMap [(''tables'', VRows rows),
                  (''detailed_schema'', VMap (addForeignKeys F ds0)),
                  (''foreign_keys'', VRows fk),
                  (''enum_types'', VEnums E),
                  (''enum_values'', VRows ev)]), tr4)"
    by auto
  have stats0: "\<exists>e. v = VMap e \<and> map_of e ''statistics'' = Some (VMap [])"
    if "map_of ds0 t = Some v" for t v
  proof (rule tablesLoop_invariant [OF loop _ _ that,
           where Q = "\<lambda>t v. \<exists>e. v = VMap e \<and> map_of e ''statistics'' = Some (VMap [])"])
    fix t :: string and v :: val
    assume "map_of [] t = Some v"
    then show "\<exists>e. v = VMap e \<and> map_of e ''statistics'' = Some (VMap [])" by simp
  next
    fix t :: string and cr tr1 v tr2
    assume "tableEntry db E S t cr tr1 = (v, tr2)"
    then show "\<exists>e. v = VMap e \<and> map_of e ''statistics'' = Some (VMap [])"
      using tableEntry_statistics S by blast
  qed
  have stats: "\<exists>e. entry = VMap e \<and> map_of e ''statistics'' = Some (VMap [])"
    if "map_of (addForeignKeys F ds0) t = Some entry" for t entry
  proof -
    from that obtain v where v: "map_of ds0 t = Some v"
      by (auto simp add: map_of_addForeignKeys)
    from stats0 [OF v] obtain e where e: "v = VMap e" "map_of e ''statistics'' = Some (VMap [])"
      by blast
    with that v show ?thesis
      by (auto simp add: map_of_addForeignKeys update_conv')
  qed
  have fetched: "\<exists>e. map_of (addForeignKeys F ds0) U = Some (VMap e)
                   \<and> map_of e ''statistics'' = Some (VMap [])"
    if r: "r \<in> set rows" and n: "assertString (map_of r ''table_name'') = Some U"
      and ok: "\<forall>tr1. \<not> isl (fst (getColumns db U tr1))" for r U
  proof -
    have "\<exists>r\<in>set rows. safeGetString r ''table_name'' = Inr U"
      using r n by (auto simp add: safeGetString_Inr)
    then have "map_of ds0 U \<noteq> None"
      using tablesLoop_keeps_fetched [OF loop ok] by blast
    then obtain v where v: "map_of ds0 U = Some v" by blast
    then obtain entry where entry: "map_of (addForeignKeys F ds0) U = Some entry"
      by (simp add: map_of_addForeignKeys)
    from stats [OF entry] entry show ?thesis by blast
  qed
  show ?thesis
    using full E stats fetched by simp
qed

lemma shop_db_enum_stats:
  "q \<in> set (GetEnumValuesQueries (NewDatabaseStrategy (DriverName shop_db)))
       \<union> set (GetTableStatsQueries (NewDatabaseStrategy (DriverName shop_db)) '''')
   \<Longrightarrow> isl (respond shop_db tr1 q)"
  by (auto simp add: shop_db_def NewDatabaseStrategy_def pg_texts_distinct)

lemma shop_db_getFullSchema:
  "fst (getFullSchema shop_db []) =
     Inr (VMap
       [(''tables'', VRows [[(''table_name'', VStr ''users'')], [(''table_name'', VStr ''orders'')]]),
        (''detailed_schema'',
         VMap [(''users'',
                VMap [(''columns'',
                       VRows [[(''column_name'', VStr ''id''),
                               (''data_type'', VStr ''integer''),
                               (''udt_name'', VStr ''int4'')]]),
                      (''primary_keys'', VRows []),
                      (''indexes'', VRows []),
                      (''unique_constraints'', VRows []),
                      (''statistics'', VMap []),
                      (''foreign_keys'', VRows [])])]),
        (''foreign_keys'', VRows []),
        (''enum_types'', VEnums []),
        (''enum_values'', VRows [])])"
  by (simp add: getFullSchema_def getTables_def getEnumValues_def getTableStats_def getColumns_def
        getPrimaryKeys_def getIndexes_def getUniqueConstraints_def getRelationships_def
        tableEntry_def tablePrimaryKeys_def tableIndexes_def tableUniqueConstraints_def
        enhanceColumns_def enhanceColumn_def addForeignKeys_def index_val_def
        mapOrNil_def rowsOrNil_def safeGetMap_def safeGetString_def
        shop_db_def NewDatabaseStrategy_def executeWithFallbacks_def Query_def
        pg_texts_distinct pg_texts_distinct_more Let_def)

text \<open>
  On \<open>shop_db\<close> neither enum values nor statistics can be read: the call succeeds, lists
  both tables, and the entry of \<^verbatim>\<open>users\<close>, whose columns can be fetched, has the empty
  statistics record.
\<close>

theorem tolerant_facets_witness:
  "getTables shop_db [] =
     (Inr (VMap [(''tables'', VRows [[(''table_name'', VStr ''users'')], [(''table_name'', VStr ''orders'')]]),
                 (''dbType'', VStr ''postgres'')]),
      [\<lparr>query = pg_tables_1, args = []\<rparr>])
   \<and> (\<forall>tr1. isl (respond shop_db tr1 \<lparr>query = pg_enum_values_1, args = []\<rparr>))
   \<and> (\<forall>tr1. isl (respond shop_db tr1 \<lparr>query = pg_stats_all, args = []\<rparr>))
   \<and> (\<forall>tr1. \<not> isl (fst (getColumns shop_db ''users'' tr1)))
   \<and> fst (getFullSchema shop_db []) =
       Inr (VMap
         [(''tables'', VRows [[(''table_name'', VStr ''users'')], [(''table_name'', VStr ''orders'')]]),
          (''detailed_schema'',
           VMap [(''users'',
                  VMap [(''columns'',
                         VRows [[(''column_name'', VStr ''id''),
                                 (''data_type'', VStr ''integer''),
                                 (''udt_name'', VStr ''int4'')]]),
                        (''primary_keys'', VRows []),
                        (''indexes'', VRows []),
                        (''unique_constraints'', VRows []),
                        (''statistics'', VMap []),
                        (''foreign_keys'', VRows [])])]),
          (''foreign_keys'', VRows []),
          (''enum_types'', VEnums []),
          (''enum_values'', VRows [])])
   \<and> (\<exists>doc ds e. fst (getFullSchema shop_db []) = Inr (VMap doc)
         \<and> map_of doc ''tables'' =
             Some (VRows [[(''table_name'', VStr ''users'')], [(''table_name'', VStr ''orders'')]])
         \<and> map_of doc ''enum_types'' = Some (VEnums [])
         \<and> map_of doc ''detailed_schema'' = Some (VMap ds)
         \<and> map_of ds ''users'' = Some (VMap e)
         \<and> map_of e ''statistics'' = Some (VMap []))"
proof -
  let ?rows = "[[(''table_name'', VStr ''users'')], [(''table_name'', VStr ''orders'')]]"
  have named: "\<forall>r\<in>set ?rows. assertString (map_of r ''table_name'') \<noteq> None"
    by simp
  have enums: "\<forall>tr1 q. q \<in> set (GetEnumValuesQueries (NewDatabaseStrategy (DriverName shop_db)))
                 \<longrightarrow> isl (respond shop_db tr1 q)"
    using shop_db_enum_stats by blast
  have stats: "\<forall>tr1 q. q \<in> set (GetTableStatsQueries (NewDatabaseStrategy (DriverName shop_db)) '''')
                 \<longrightarrow> isl (respond shop_db tr1 q)"
    using shop_db_enum_stats by blast
  have e1: "\<forall>tr1. isl (respond shop_db tr1 \<lparr>query = pg_enum_values_1, args = []\<rparr>)"
    by (simp add: shop_db_def pg_texts_distinct)
  have s1: "\<forall>tr1. isl (respond shop_db tr1 \<lparr>query = pg_stats_all, args = []\<rparr>)"
    by (simp add: shop_db_def pg_texts_distinct)
  have fU: "\<forall>tr1. \<not> isl (fst (getColumns shop_db ''users'' tr1))"
    by (simp add: shop_db_users)
  have rU: "[(''table_name'', VStr ''users'')] \<in> set ?rows" by simp
  have nU: "assertString (map_of [(''table_name'', VStr ''users'')] ''table_name'') = Some ''users''"
    by simp
  from tolerant_facets [OF shop_db_getTables named enums stats]
  obtain doc ds tr' where doc: "getFullSchema shop_db [] = (Inr (VMap doc), tr')"
      "map_of doc ''tables'' = Some (VRows ?rows)"
      "map_of doc ''enum_types'' = Some (VEnums [])"
      "map_of doc ''detailed_schema'' = Some (VMap ds)"
    and fetched: "\<forall>r\<in>set ?rows. \<forall>U.
                 assertString (map_of r ''table_name'') = Some U
                   \<and> (\<forall>tr1. \<not> isl (fst (getColumns shop_db U tr1)))
                 \<longrightarrow> (\<exists>e. map_of ds U = Some (VMap e) \<and> map_of e ''statistics'' = Some (VMap []))"
    by blast
  from fetched rU nU fU
  obtain e where "map_of ds ''users'' = Some (VMap e)" "map_of e ''statistics'' = Some (VMap [])"
    by blast
  with doc have last: "\<exists>doc ds e. fst (getFullSchema shop_db []) = Inr (VMap doc)
         \<and> map_of doc ''tables'' = Some (VRows ?rows)
         \<and> map_of doc ''enum_types'' = Some (VEnums [])
         \<and> map_of doc ''detailed_schema'' = Some (VMap ds)
         \<and> map_of ds ''users'' = Some (VMap e)
         \<and> map_of e ''statistics'' = Some (VMap [])"
    by fastforce
  show ?thesis
    using shop_db_getTables e1 s1 fU shop_db_getFullSchema last by blast
qed

subsection \<open>Enum attachment\<close>

lemma enhanceColumn_attaches:
  assumes "map_of (enhanceColumn E raw) ''data_type'' = Some (VStr ''USER-DEFINED'')"
    and "map_of (enhanceColumn E raw) ''udt_name'' = Some (VStr udtName)"
    and "map_of E udtName = Some labels"
  shows "map_of (enhanceColumn E raw) ''enum_values'' = Some (VStrs labels)
         \<and> map_of (enhanceColumn E raw) ''enum_type'' = Some (VStr udtName)"
proof -
  have keep: "map_of (enhanceColumn E raw) ''data_type'' = map_of raw ''data_type''
              \<and> map_of (enhanceColumn E raw) ''udt_name'' = map_of raw ''udt_name''"
    by (simp add: enhanceColumn_def Let_def update_conv' split: option.splits)
  with assms(1,2) have raw: "map_of raw ''data_type'' = Some (VStr ''USER-DEFINED'')"
      "map_of raw ''udt_name'' = Some (VStr udtName)"
    by simp_all
  with assms(3) show ?thesis
    by (simp add: enhanceColumn_def update_conv')
qed

lemma tableEntry_columns:
  assumes "tableEntry db E S t cr tr = (VMap e, tr')"
    and "map_of e ''columns'' = Some (VRows cols)"
  shows "\<exists>raw. cols = map (enhanceColumn E) raw"
proof -
  from assms have iv: "index_val (enhanceColumns E (mapOrNil cr)) ''columns'' = VRows cols"
    by (auto simp add: tableEntry_def Let_def split: prod.splits)
  show ?thesis
  proof (cases "assertRows (map_of (mapOrNil cr) ''columns'')")
    case None
    then have "enhanceColumns E (mapOrNil cr) = mapOrNil cr"
      by (simp add: enhanceColumns_def)
    with iv have "map_of (mapOrNil cr) ''columns'' = Some (VRows cols)"
      by (simp add: index_val_def split: option.splits)
    with None show ?thesis by simp
  next
    case (Some columns)
    with iv show ?thesis
      by (auto simp add: enhanceColumns_def index_val_def update_conv')
  qed
qed

lemma getTables_shape:
  "getTables db tr = (Inr v, tr0) \<Longrightarrow>
   \<exists>rows. v = VMap [(''tables'', VRows rows), (''dbType'', VStr (DriverName db))]"
  by (auto simp add: getTables_def Let_def split: prod.splits sum.splits)

lemma getFullSchema_tables:
  "getFullSchema db tr = (Inr v, tr') \<Longrightarrow>
   \<exists>rows tr0. getTables db tr = (Inr (VMap [(''tables'', VRows rows), (''dbType'', VStr (DriverName db))]), tr0)"
proof -
  assume a: "getFullSchema db tr = (Inr v, tr')"
  obtain res tr0 where g: "getTables db tr = (res, tr0)"
    by (cases "getTables db tr")
  with a obtain w where "res = Inr w"
    by (cases res) (auto simp add: getFullSchema_def)
  with g getTables_shape [of db tr w tr0] show ?thesis by auto
qed

lemma addForeignKeys_entry:
  assumes "map_of (addForeignKeys F ds0) t = Some (VMap entry)"
  shows "\<exists>entry0 fks. map_of ds0 t = Some (VMap entry0)
           \<and> entry = AList.update ''foreign_keys'' fks entry0"
proof (cases "map_of ds0 t")
  case None
  with assms show ?thesis by (simp add: map_of_addForeignKeys)
next
  case (Some v)
  with assms show ?thesis
    by (cases v) (auto simp add: map_of_addForeignKeys)
qed

text \<open>
  Claim C6 (enum attachment). In the document \<open>getFullSchema\<close> returns, let \<open>column\<close> be a
  column record of a table entry of \<^verbatim>\<open>detailed_schema\<close> whose \<^verbatim>\<open>data_type\<close> is the string
  \<^verbatim>\<open>USER-DEFINED\<close> and whose \<^verbatim>\<open>udt_name\<close> is a key of the document's enum catalog
  \<^verbatim>\<open>enum_types\<close>. Then the record carries \<^verbatim>\<open>enum_values\<close>, equal to the catalog's label list
  for that key, and \<^verbatim>\<open>enum_type\<close>, equal to the \<^verbatim>\<open>udt_name\<close>. (Enrichment leaves \<^verbatim>\<open>data_type\<close>
  and \<^verbatim>\<open>udt_name\<close> as the database returned them.)
\<close>

theorem enum_attachment:
  assumes "getFullSchema db tr = (Inr (VMap doc), tr')"
    and "map_of doc ''enum_types'' = Some (VEnums catalog)"
    and "map_of doc ''detailed_schema'' = Some (VMap ds)"
    and "map_of ds table = Some (VMap entry)"
    and "map_of entry ''columns'' = Some (VRows cols)"
    and "column \<in> set cols"
    and "map_of column ''data_type'' = Some (VStr ''USER-DEFINED'')"
    and "map_of column ''udt_name'' = Some (VStr udtName)"
    and "map_of catalog udtName = Some labels"
  shows "map_of column ''enum_values'' = Some (VStrs labels)
         \<and> map_of column ''enum_type'' = Some (VStr udtName)"
proof -
  from getFullSchema_tables [OF assms(1)]
  obtain rows tr0 where tables:
    "getTables db tr = (Inr (VMap [(''tables'', VRows rows), (''dbType'', VStr (DriverName db))]), tr0)"
    by blast
  define E where "E = (case fst (getEnumValues db tr0) of
                Inl enumsErr \<Rightarrow> []
              | Inr r \<Rightarrow> organizeEnums [] (rowsOrNil (mapOrNil r) ''enums''))"
  define S where "S = (case fst (getTableStats db '''' (snd (getEnumValues db tr0))) of
                Inl statsErr \<Rightarrow> []
              | Inr r \<Rightarrow> (case assertRows (map_of (mapOrNil r) ''stats'') of
                           None \<Rightarrow> []
                         | Some st \<Rightarrow> organizeStats [] st))"
  define tr2 where "tr2 = snd (getTableStats db '''' (snd (getEnumValues db tr0)))"
  obtain res tr3 where loop0: "tablesLoop db E S rows [] tr2 = (res, tr3)"
    by (cases "tablesLoop db E S rows [] tr2")
  with getFullSchema_decomp [OF tables E_def S_def tr2_def] assms(1)
  obtain ds0 where loop: "tablesLoop db E S rows [] tr2 = (Inr ds0, tr3)"
    by (cases res) auto
  with getFullSchema_decomp [OF tables E_def S_def tr2_def] assms(1)
  obtain ev F fk where doc: "doc =
      [(''tables'', VRows rows),
       (''detailed_schema'', VMap (addForeignKeys F ds0)),
       (''foreign_keys'', VRows fk),
       (''enum_types'', VEnums E),
       (''enum_values'', VRows ev)]"
    by auto
  from doc assms(2) have cat: "catalog = E" by simp
  from doc assms(3) have ds: "ds = addForeignKeys F ds0" by simp
  from assms(4) ds addForeignKeys_entry [of F ds0 table entry]
  obtain entry0 fks where entry0: "map_of ds0 table = Some (VMap entry0)"
    and "entry = AList.update ''foreign_keys'' fks entry0"
    by blast
  then have cols0: "map_of entry0 ''columns'' = map_of entry ''columns''"
    by (simp add: update_conv')
  have "\<exists>raw. cols = map (enhanceColumn E) raw"
    if "v = VMap entry0" for v
  proof -
    have "\<forall>e cs. VMap entry0 = VMap e \<and> map_of e ''columns'' = Some (VRows cs)
            \<longrightarrow> (\<exists>raw. cs = map (enhanceColumn E) raw)"
    proof (rule tablesLoop_invariant [OF loop _ _ entry0,
             where Q = "\<lambda>t v. \<forall>e cs. v = VMap e \<and> map_of e ''columns'' = Some (VRows cs)
                              \<longrightarrow> (\<exists>raw. cs = map (enhanceColumn E) raw)"])
      fix t :: string and v :: val
      assume "map_of [] t = Some v"
      then show "\<forall>e cs. v = VMap e \<and> map_of e ''columns'' = Some (VRows cs)
                   \<longrightarrow> (\<exists>raw. cs = map (enhanceColumn E) raw)" by simp
    next
      fix t :: string and cr tr1 v tr2
      assume "tableEntry db E S t cr tr1 = (v, tr2)"
      then show "\<forall>e cs. v = VMap e \<and> map_of e ''columns'' = Some (VRows cs)
                   \<longrightarrow> (\<exists>raw. cs = map (enhanceColumn E) raw)"
        using tableEntry_columns by blast
    qed
    with cols0 assms(5) show ?thesis by simp
  qed
  then obtain raw where "cols = map (enhanceColumn E) raw" by blast
  with assms(6) obtain r where "column = enhanceColumn E r" by auto
  with enhanceColumn_attaches [of E r udtName labels] assms(7,8,9) cat
  show ?thesis by simp
qed


lemma enum_db_getFullSchema:
  "fst (getFullSchema enum_db []) =
     Inr (VMap
       [(''tables'', VRows [[(''table_name'', VStr ''orders'')]]),
        (''detailed_schema'',
         VMap [(''orders'',
                VMap [(''columns'',
                       VRows [[(''column_name'', VStr ''status''),
                               (''data_type'', VStr ''USER-DEFINED''),
                               (''udt_name'', VStr ''order_status''),
                               (''enum_values'', VStrs [''pending'', ''shipped'', ''delivered'']),
                               (''enum_type'', VStr ''order_status'')]]),
                      (''primary_keys'', VRows []),
                      (''indexes'', VRows []),
                      (''unique_constraints'', VRows []),
                      (''statistics'', VMap []),
                      (''foreign_keys'', VRows [])])]),
        (''foreign_keys'', VRows []),
        (''enum_types'', VEnums [(''order_status'', [''pending'', ''shipped'', ''delivered''])]),
        (''enum_values'',
         VRows [[(''enum_name'', VStr ''order_status''), (''enum_value'', VStr ''pending'')],
                [(''enum_name'', VStr ''order_status''), (''enum_value'', VStr ''shipped'')],
                [(''enum_name'', VStr ''order_status''), (''enum_value'', VStr ''delivered'')]])])"
  by (simp add: getFullSchema_def getTables_def getEnumValues_def getTableStats_def getColumns_def
        getPrimaryKeys_def getIndexes_def getUniqueConstraints_def getRelationships_def
        tableEntry_def tablePrimaryKeys_def tableIndexes_def tableUniqueConstraints_def
        enhanceColumns_def enhanceColumn_def addForeignKeys_def index_val_def
        mapOrNil_def rowsOrNil_def safeGetMap_def safeGetString_def
        enum_db_def NewDatabaseStrategy_def executeWithFallbacks_def Query_def
        pg_texts_distinct pg_texts_distinct_more Let_def)


text \<open>
  The specification's example: a column \<^verbatim>\<open>status\<close> of declared type \<^verbatim>\<open>USER-DEFINED\<close> and
  underlying type \<^verbatim>\<open>order_status\<close>, whose labels the enum facet lists in order.
\<close>

theorem enum_attachment_witness:
  "fst (getFullSchema enum_db []) =
     Inr (VMap
       [(''tables'', VRows [[(''table_name'', VStr ''orders'')]]),
        (''detailed_schema'',
         VMap [(''orders'',
                VMap [(''columns'',
                       VRows [[(''column_name'', VStr ''status''),
                               (''data_type'', VStr ''USER-DEFINED''),
                               (''udt_name'', VStr ''order_status''),
                               (''enum_values'', VStrs [''pending'', ''shipped'', ''delivered'']),
                               (''enum_type'', VStr ''order_status'')]]),
                      (''primary_keys'', VRows []),
                      (''indexes'', VRows []),
                      (''unique_constraints'', VRows []),
                      (''statistics'', VMap []),
                      (''foreign_keys'', VRows [])])]),
        (''foreign_keys'', VRows []),
        (''enum_types'', VEnums [(''order_status'', [''pending'', ''shipped'', ''delivered''])]),
        (''enum_values'',
         VRows [[(''enum_name'', VStr ''order_status''), (''enum_value'', VStr ''pending'')],
                [(''enum_name'', VStr ''order_status''), (''enum_value'', VStr ''shipped'')],
                [(''enum_name'', VStr ''order_status''), (''enum_value'', VStr ''delivered'')]])])
   \<and> map_of [(''column_name'', VStr ''status''),
              (''data_type'', VStr ''USER-DEFINED''),
              (''udt_name'', VStr ''order_status''),
              (''enum_values'', VStrs [''pending'', ''shipped'', ''delivered'']),
              (''enum_type'', VStr ''order_status'')] ''enum_values''
       = Some (VStrs [''pending'', ''shipped'', ''delivered''])
   \<and> map_of [(''column_name'', VStr ''status''),
              (''data_type'', VStr ''USER-DEFINED''),
              (''udt_name'', VStr ''order_status''),
              (''enum_values'', VStrs [''pending'', ''shipped'', ''delivered'']),
              (''enum_type'', VStr ''order_status'')] ''enum_type''
       = Some (VStr ''order_status'')"
proof -
  let ?column = "[(''column_name'', VStr ''status''),
                  (''data_type'', VStr ''USER-DEFINED''),
                  (''udt_name'', VStr ''order_status''),
                  (''enum_values'', VStrs [''pending'', ''shipped'', ''delivered'']),
                  (''enum_type'', VStr ''order_status'')]"
  let ?entry = "[(''columns'', VRows [?column]),
                 (''primary_keys'', VRows []),
                 (''indexes'', VRows []),
                 (''unique_constraints'', VRows []),
                 (''statistics'', VMap []),
                 (''foreign_keys'', VRows [])]"
  let ?catalog = "[(''order_status'', [''pending'', ''shipped'', ''delivered''])]"
  let ?ds = "[(''orders'', VMap ?entry)]"
  let ?doc = "[(''tables'', VRows [[(''table_name'', VStr ''orders'')]]),
               (''detailed_schema'', VMap ?ds),
               (''foreign_keys'', VRows []),
               (''enum_types'', VEnums ?catalog),
               (''enum_values'',
                VRows [[(''enum_name'', VStr ''order_status''), (''enum_value'', VStr ''pending'')],
                       [(''enum_name'', VStr ''order_status''), (''enum_value'', VStr ''shipped'')],
                       [(''enum_name'', VStr ''order_status''), (''enum_value'', VStr ''delivered'')]])]"
  have full: "getFullSchema enum_db [] = (Inr (VMap ?doc), snd (getFullSchema enum_db []))"
    using enum_db_getFullSchema by (simp add: prod_eq_iff)
  have h2: "map_of ?doc ''enum_types'' = Some (VEnums ?catalog)" by simp
  have h3: "map_of ?doc ''detailed_schema'' = Some (VMap ?ds)" by simp
  have h4: "map_of ?ds ''orders'' = Some (VMap ?entry)" by simp
  have h5: "map_of ?entry ''columns'' = Some (VRows [?column])" by simp
  have h6: "?column \<in> set [?column]" by simp
  have h7: "map_of ?column ''data_type'' = Some (VStr ''USER-DEFINED'')" by simp
  have h8: "map_of ?column ''udt_name'' = Some (VStr ''order_status'')" by simp
  have h9: "map_of ?catalog ''order_status'' = Some [''pending'', ''shipped'', ''delivered'']" by simp
  from enum_attachment [OF full h2 h3 h4 h5 h6 h7 h8 h9] enum_db_getFullSchema
  show ?thesis by simp
qed

section \<open>Schema restriction of the query candidates\<close>

lemma HasPrefix_append: "HasPrefix a p \<Longrightarrow> HasPrefix (a @ b) p"
  by (induction a p rule: HasPrefix.induct) auto

lemma Contains_Nil: "Contains s []"
  by (cases s) auto

lemma Contains_append: "Contains a sub \<Longrightarrow> Contains (a @ b) sub"
proof (induction a)
  case Nil
  then show ?case by (simp add: Contains_Nil)
next
  case (Cons c a)
  then show ?case
    using HasPrefix_append [of "c # a" sub b] by auto
qed

lemma names_public_schema_append: "names_public_schema a \<Longrightarrow> names_public_schema (a @ b)"
  by (auto simp add: names_public_schema_def Contains_append)

lemma names_current_database_append: "names_current_database a \<Longrightarrow> names_current_database (a @ b)"
  by (auto simp add: names_current_database_def Contains_append)

lemma pg_texts_public:
  "names_public_schema pg_tables_1"
  "names_public_schema pg_tables_2"
  "names_public_schema pg_tables_3"
  "names_public_schema pg_columns_1"
  "names_public_schema pg_columns_2"
  "names_public_schema pg_relationships_1"
  "names_public_schema pg_relationships_2"
  "names_public_schema pg_primary_keys_all"
  "names_public_schema pg_primary_keys_table"
  "names_public_schema pg_indexes_all"
  "names_public_schema pg_indexes_table"
  "names_public_schema pg_enum_values_1"
  "names_public_schema pg_unique_all"
  "names_public_schema pg_unique_table"
  "names_public_schema pg_stats_all"
  "names_public_schema pg_stats_table"
  unfolding names_public_schema_def pg_tables_1_def pg_tables_2_def pg_tables_3_def
    pg_columns_1_def pg_columns_2_def pg_relationships_1_def pg_relationships_2_def
    pg_primary_keys_all_def pg_primary_keys_table_def pg_indexes_all_def pg_indexes_table_def
    pg_enum_values_1_def pg_unique_all_def pg_unique_table_def pg_stats_all_def pg_stats_table_def
    sql_lines_def
  by (simp_all add: eval_nat_numeral)

lemma mysql_texts_database:
  "names_current_database mysql_tables_1"
  "names_current_database mysql_columns_1"
  "names_current_database mysql_relationships_1"
  "names_current_database mysql_relationships_2"
  "names_current_database mysql_primary_keys_base"
  "names_current_database mysql_indexes_base"
  "names_current_database mysql_enum_values_1"
  "names_current_database mysql_unique_base"
  "names_current_database mysql_stats_base"
  unfolding names_current_database_def mysql_tables_1_def mysql_columns_1_def
    mysql_relationships_1_def mysql_relationships_2_def mysql_primary_keys_base_def
    mysql_indexes_base_def mysql_enum_values_1_def mysql_unique_base_def mysql_stats_base_def
    sql_lines_def
  by (simp_all add: eval_nat_numeral)

lemma generic_texts_filtered:
  "names_public_schema generic_enum_values_1"
  "names_current_database generic_enum_values_2"
  "names_public_schema generic_stats_pg"
  "names_current_database generic_stats_mysql"
  unfolding names_public_schema_def names_current_database_def generic_enum_values_1_def
    generic_enum_values_2_def generic_stats_pg_def generic_stats_mysql_def sql_lines_def
  by (simp_all add: eval_nat_numeral)

lemma mysql_show_exact:
  "mysql_tables_2 = ''SHOW TABLES''"
  "mysql_show_columns @ table = ''SHOW COLUMNS FROM '' @ table"
  unfolding mysql_tables_2_def mysql_show_columns_def sql_lines_def
  by simp_all

lemma generic_tables_first: "names_public_schema generic_tables_1"
  unfolding names_public_schema_def generic_tables_1_def
  by simp

text \<open>
  The second candidate of the Generic strategy for the tables facet reads every schema:
  its text has none of the filters.
\<close>

theorem schema_restriction_counterexample:
  "\<not> restricts_to_schema (query (facetQueries GenericStrategy Tables '''' ! 1))"
  by (simp add: restricts_to_schema_def generic_tables_2_def)

text \<open>
  Claim C9 (schema restriction), as amended. For every facet and every table argument:
  every candidate of the PostgreSQL strategy compares \<^verbatim>\<open>schemaname\<close>, \<^verbatim>\<open>table_schema\<close> or
  \<^verbatim>\<open>nspname\<close> with \<^verbatim>\<open>'public'\<close>; every candidate of the MySQL strategy compares \<^verbatim>\<open>table_schema\<close>
  or \<^verbatim>\<open>constraint_schema\<close> with \<^verbatim>\<open>DATABASE()\<close>, or is the fallback of the tables facet, whose
  text is exactly \<^verbatim>\<open>SHOW TABLES\<close>, or the fallback of the columns facet, whose text is
  exactly \<^verbatim>\<open>SHOW COLUMNS FROM\<close> followed by the table argument; and of the Generic strategy,
  every candidate of the enum-values and table-statistics facets and the first candidate
  of the tables facet carry one of these comparisons. Nothing is stated about the other
  candidates of the Generic strategy.
\<close>

theorem schema_restriction:
  "(\<forall>q\<in>set (facetQueries PostgresStrategy f table). names_public_schema (query q))
   \<and> (\<forall>q\<in>set (facetQueries MySQLStrategy f table).
         names_current_database (query q)
         \<or> (f = Tables \<and> query q = ''SHOW TABLES'')
         \<or> (f = Columns \<and> query q = ''SHOW COLUMNS FROM '' @ table))
   \<and> (\<forall>q\<in>set (facetQueries GenericStrategy f table).
         f \<in> {EnumValues, TableStats}
         \<longrightarrow> names_public_schema (query q) \<or> names_current_database (query q))
   \<and> names_public_schema (query (facetQueries GenericStrategy Tables table ! 0))"
proof (intro conjI)
  show "\<forall>q\<in>set (facetQueries PostgresStrategy f table). names_public_schema (query q)"
    by (cases f) (simp_all add: Let_def pg_texts_public names_public_schema_append)
  show "\<forall>q\<in>set (facetQueries MySQLStrategy f table).
          names_current_database (query q)
          \<or> (f = Tables \<and> query q = ''SHOW TABLES'')
          \<or> (f = Columns \<and> query q = ''SHOW COLUMNS FROM '' @ table)"
    by (cases f)
       (simp_all add: Let_def mysql_texts_database mysql_show_exact names_current_database_append)
  show "\<forall>q\<in>set (facetQueries GenericStrategy f table).
          f \<in> {EnumValues, TableStats}
          \<longrightarrow> names_public_schema (query q) \<or> names_current_database (query q)"
    by (cases f)
       (simp_all add: Let_def generic_texts_filtered names_public_schema_append
          names_current_database_append)
  show "names_public_schema (query (facetQueries GenericStrategy Tables table ! 0))"
    by (simp add: generic_tables_first)
qed

text \<open>
  The columns of \<^verbatim>\<open>users\<close>, the table list, and the two facets of the Generic strategy that
  are filtered throughout.
\<close>

theorem schema_restriction_witness:
  "names_public_schema (query (GetColumnsQueries PostgresStrategy ''users'' ! 0))
   \<and> names_public_schema (query (GetColumnsQueries PostgresStrategy ''users'' ! 1))
   \<and> names_public_schema (query (GetTablesQueries PostgresStrategy ! 2))
   \<and> names_current_database (query (GetColumnsQueries MySQLStrategy ''users'' ! 0))
   \<and> query (GetColumnsQueries MySQLStrategy ''users'' ! 1) = ''SHOW COLUMNS FROM users''
   \<and> names_current_database (query (GetTablesQueries MySQLStrategy ! 0))
   \<and> query (GetTablesQueries MySQLStrategy ! 1) = ''SHOW TABLES''
   \<and> names_public_schema (query (GetTablesQueries GenericStrategy ! 0))
   \<and> names_public_schema (query (GetEnumValuesQueries GenericStrategy ! 0))
   \<and> names_current_database (query (GetEnumValuesQueries GenericStrategy ! 1))
   \<and> names_public_schema (query (GetTableStatsQueries GenericStrategy '''' ! 0))
   \<and> names_current_database (query (GetTableStatsQueries GenericStrategy '''' ! 1))"
  using schema_restriction [of Columns "''users''"] schema_restriction [of Tables "''''"]
    schema_restriction [of TableStats "''''"] schema_restriction [of EnumValues "''''"]
  by (simp add: mysql_show_exact mysql_texts_database generic_texts_filtered generic_tables_first
        pg_texts_public names_public_schema_append names_current_database_append)


end
